theory Spec2Isabelle
  imports Complex_Main "HOL-Library.AList" "HOL-Library.Sublist"
begin

section \<open>JavaScript values\<close>

text \<open>
  The examples handle loosely typed values: the arguments of a function call requested by
  the model, the object that \<^verbatim>\<open>JSON.parse\<close> returns, the settings object.
  A JavaScript number is a double; \<^verbatim>\<open>Math.max\<close>, \<^verbatim>\<open>Math.min\<close> and
  \<^verbatim>\<open><\<close> do not round, so a finite double is modelled by the real number it denotes,
  beside the three special values.
\<close>

datatype jsnum = NaN | NegInf | Fin real | PosInf

text \<open>
  An object is the list of its own properties in insertion order. An array carries its
  elements and, beside them, the named properties assigned to it.
\<close>

datatype jsval =
    Undefined
  | Null
  | Bool bool
  | Number jsnum
  | Str string
  | Arr "jsval list" "(string \<times> jsval) list"
  | Obj "(string \<times> jsval) list"

datatype exn = TypeError | Error string | TransportError string

text \<open>The operator \<^verbatim>\<open><\<close> on numbers: false as soon as one side is NaN.\<close>

fun num_lt :: "jsnum \<Rightarrow> jsnum \<Rightarrow> bool" where
  "num_lt NaN _ = False"
| "num_lt _ NaN = False"
| "num_lt NegInf NegInf = False"
| "num_lt NegInf _ = True"
| "num_lt (Fin x) NegInf = False"
| "num_lt (Fin x) (Fin y) = (x < y)"
| "num_lt (Fin x) PosInf = True"
| "num_lt PosInf _ = False"

text \<open>\<^verbatim>\<open>Math.min(a, b)\<close> and \<^verbatim>\<open>Math.max(a, b)\<close>: NaN if either argument is NaN.\<close>

definition Math_min :: "jsnum \<Rightarrow> jsnum \<Rightarrow> jsnum" where
  "Math_min a b = (if a = NaN \<or> b = NaN then NaN else if num_lt b a then b else a)"

definition Math_max :: "jsnum \<Rightarrow> jsnum \<Rightarrow> jsnum" where
  "Math_max a b = (if a = NaN \<or> b = NaN then NaN else if num_lt a b then b else a)"

text \<open>
  \<^verbatim>\<open>Math.min\<close> and \<^verbatim>\<open>Math.max\<close> convert their arguments with ToNumber. Two
  conversions belong to the language runtime and are parameters: that of a string
  (StringToNumber), which always gives a number, and that of an object or array
  (ToPrimitive, then the conversion of the primitive), which throws a TypeError when the
  object has no callable \<^verbatim>\<open>valueOf\<close> or \<^verbatim>\<open>toString\<close> that returns a primitive.
\<close>

fun ToNumber :: "(string \<Rightarrow> jsnum) \<Rightarrow> (jsval \<Rightarrow> exn + jsnum) \<Rightarrow> jsval \<Rightarrow> exn + jsnum" where
  "ToNumber sn on Undefined = Inr NaN"
| "ToNumber sn on Null = Inr (Fin 0)"
| "ToNumber sn on (Bool b) = Inr (Fin (if b then 1 else 0))"
| "ToNumber sn on (Number n) = Inr n"
| "ToNumber sn on (Str s) = Inr (sn s)"
| "ToNumber sn on v = on v"

text \<open>
  Reading a property \<^verbatim>\<open>v.key\<close>: a TypeError on \<^verbatim>\<open>null\<close> and
  \<^verbatim>\<open>undefined\<close>, \<^verbatim>\<open>undefined\<close> for a property that is not there. The keys read
  in these programs are fixed names that no primitive's prototype defines.
\<close>

fun get_prop :: "jsval \<Rightarrow> string \<Rightarrow> exn + jsval" where
  "get_prop Undefined k = Inl TypeError"
| "get_prop Null k = Inl TypeError"
| "get_prop (Obj kvs) k = Inr (case map_of kvs k of None \<Rightarrow> Undefined | Some v \<Rightarrow> v)"
| "get_prop (Arr xs kvs) k = Inr (case map_of kvs k of None \<Rightarrow> Undefined | Some v \<Rightarrow> v)"
| "get_prop v k = Inr Undefined"

text \<open>
  Assigning a property \<^verbatim>\<open>v.key = x\<close>. The sources are ES modules, hence strict code:
  assigning a property of a primitive throws a TypeError. On an object the property keeps
  its place if it exists and is added at the end if not.
\<close>

fun set_prop :: "jsval \<Rightarrow> string \<Rightarrow> jsval \<Rightarrow> exn + jsval" where
  "set_prop (Obj kvs) k x = Inr (Obj (AList.update k x kvs))"
| "set_prop (Arr xs kvs) k x = Inr (Arr xs (AList.update k x kvs))"
| "set_prop v k x = Inl TypeError"

text \<open>
  The settings of the application, \<^verbatim>\<open>interface AppSettings\<close>, and the object that such
  a value is when it is logged, sent to the model or returned where a parsed payload could
  have been returned.
\<close>

record AppSettings =
  darkMode :: bool
  fontSizeFactor :: jsnum
  notificationsEnabled :: bool
  notificationVolume :: jsnum
  reduceMotion :: bool
  autoPlayVideos :: bool
  highContrast :: bool
  textToSpeechRate :: jsnum

definition json_of :: "AppSettings \<Rightarrow> jsval" where
  "json_of a = Obj
     [(''darkMode'', Bool (darkMode a)),
      (''fontSizeFactor'', Number (fontSizeFactor a)),
      (''notificationsEnabled'', Bool (notificationsEnabled a)),
      (''notificationVolume'', Number (notificationVolume a)),
      (''reduceMotion'', Bool (reduceMotion a)),
      (''autoPlayVideos'', Bool (autoPlayVideos a)),
      (''highContrast'', Bool (highContrast a)),
      (''textToSpeechRate'', Number (textToSpeechRate a))]"

section \<open>The collaborators\<close>

text \<open>
  The model client and the language runtime are not part of the repository. They are the
  fields of an environment: the chat model, which answers a message in the context of the
  turns exchanged so far or fails; the transactional model call
  \<^verbatim>\<open>transactionalModel.generateContent(request)\<close> with the \<^verbatim>\<open>response.text()\<close>
  that follows it, which fails or returns the response text; \<^verbatim>\<open>JSON.parse\<close>, which
  fails or returns a value; the runtime's number conversions, its
  \<^verbatim>\<open>Array.prototype.join\<close> and the string conversion of a template literal, which
  may throw while converting an object; and the storyboard image file, which may be
  unreadable. A
  transactional request is identified by the data its prompt is built from.
\<close>

datatype prompt =
    UpdatePrompt AppSettings string
  | TimestampPrompt string
  | AnswerPrompt string jsval

text \<open>
  A response of the chat model: the parts of its first candidate
  (\<^verbatim>\<open>response.candidates?.[0]?.content?.parts\<close>, which may be undefined) and the
  outcome of \<^verbatim>\<open>response.text()\<close>, which returns the text or throws (the SDK throws
  for a blocked response).
\<close>

record fncall =
  name :: string
  args :: jsval

datatype part = TextPart string | FunctionCallPart fncall | OtherPart

record response =
  parts :: "part list option"
  response_text :: "exn + string"

text \<open>
  What \<^verbatim>\<open>chat.sendMessage\<close> is given: the user's text, or the one-element list
  \<^verbatim>\<open>[{functionResponse: {name, response}}]\<close>.
\<close>

datatype message = TextMessage string | FunctionResponse string jsval

datatype turn = UserTurn message | ModelTurn response

record env =
  send :: "turn list \<Rightarrow> message \<Rightarrow> exn + response"
  generateContent :: "prompt \<Rightarrow> exn + string"
  JSON_parse :: "string \<Rightarrow> jsval option"
  string_number :: "string \<Rightarrow> jsnum"
  object_number :: "jsval \<Rightarrow> exn + jsnum"
  array_join :: "jsval list \<Rightarrow> exn + string"
  to_string :: "jsval \<Rightarrow> exn + string"
  storyboard :: "jsval option"

section \<open>adjustable-settings: the tools\<close>

definition get_current_app_settings :: AppSettings where
  "get_current_app_settings =
     \<lparr>darkMode = False,
      fontSizeFactor = Fin 1.0,
      notificationsEnabled = True,
      notificationVolume = Fin 0.7,
      reduceMotion = False,
      autoPlayVideos = True,
      highContrast = False,
      textToSpeechRate = Fin 1.0\<rparr>"

text \<open>
  One line of the validation block,
  \<^verbatim>\<open>p.key = Math.max(lo, Math.min(hi, p.key))\<close>: the read, the conversion that
  \<^verbatim>\<open>Math.min\<close> makes of what was read, the two library calls, the assignment. The
  read, the conversion and the assignment may each throw.
\<close>

definition clamp_field :: "env \<Rightarrow> real \<Rightarrow> real \<Rightarrow> string \<Rightarrow> jsval \<Rightarrow> exn + jsval" where
  "clamp_field E lo hi k p =
     (case get_prop p k of
        Inl e \<Rightarrow> Inl e
      | Inr v \<Rightarrow>
          (case ToNumber (string_number E) (object_number E) v of
             Inl e \<Rightarrow> Inl e
           | Inr n \<Rightarrow> set_prop p k (Number (Math_max (Fin lo) (Math_min (Fin hi) n)))))"

definition validate_settings :: "env \<Rightarrow> jsval \<Rightarrow> exn + jsval" where
  "validate_settings E p =
     (case clamp_field E 0.8 2.0 ''fontSizeFactor'' p of
        Inl e \<Rightarrow> Inl e
      | Inr p1 \<Rightarrow>
          (case clamp_field E 0.0 1.0 ''notificationVolume'' p1 of
             Inl e \<Rightarrow> Inl e
           | Inr p2 \<Rightarrow> clamp_field E 0.5 2.0 ''textToSpeechRate'' p2))"

text \<open>
  \<^verbatim>\<open>update_app_settings({currentSettings, userRequest}, model, settingDefinitions)\<close>.
  Before the \<^verbatim>\<open>try\<close> the handler logs and builds the prompt from the typed settings
  and the request string, which cannot throw. Everything that can throw is inside the
  \<^verbatim>\<open>try\<close>, whose \<^verbatim>\<open>catch\<close> returns \<^verbatim>\<open>currentSettings\<close>. The value returned on
  success is the parsed payload, whatever it holds: the cast \<^verbatim>\<open>as AppSettings\<close> checks
  nothing.
\<close>

definition update_app_settings :: "env \<Rightarrow> AppSettings \<Rightarrow> string \<Rightarrow> jsval" where
  "update_app_settings E currentSettings userRequest =
     (case generateContent E (UpdatePrompt currentSettings userRequest) of
        Inl e \<Rightarrow> json_of currentSettings
      | Inr responseText \<Rightarrow>
          (case JSON_parse E responseText of
             None \<Rightarrow> json_of currentSettings
           | Some proposedSettings \<Rightarrow>
               (case validate_settings E proposedSettings of
                  Inl e \<Rightarrow> json_of currentSettings
                | Inr validated \<Rightarrow> validated)))"

section \<open>The conversation session\<close>

text \<open>
  Modelled from the spec: the session object is the SDK's \<^verbatim>\<open>ChatSession\<close>, which is
  not part of the repository. Section 4.1 of the specification gives its contract:
  \<^verbatim>\<open>append(turn)\<close> adds a turn to the end, \<^verbatim>\<open>view()\<close> returns the full ordered
  sequence.
\<close>

type_synonym session = "turn list"

definition append_turn :: "session \<Rightarrow> turn \<Rightarrow> session" where
  "append_turn h t = h @ [t]"

definition view :: "session \<Rightarrow> turn list" where
  "view h = h"

text \<open>
  Modelled from the spec: \<^verbatim>\<open>chat.sendMessage(m)\<close> submits the view of the session
  with the new message to the model client; when the client answers, the message and the
  answer are appended, and when it fails the call throws.
\<close>

definition sendMessage :: "env \<Rightarrow> session \<Rightarrow> message \<Rightarrow> exn + (response \<times> session)" where
  "sendMessage E h m =
     (case send E (view h) m of
        Inl e \<Rightarrow> Inl e
      | Inr r \<Rightarrow> Inr (r, append_turn (append_turn h (UserTurn m)) (ModelTurn r)))"

section \<open>The function calling loop\<close>

text \<open>
  What a run prints and which handlers it invokes is recorded as a list of events, in
  order: a handler invoked with its arguments, and the console lines that tell how the
  run went.
\<close>

datatype event =
    ToolCall string "jsval list"
  | RequestedCall nat string
  | Assistant string
  | FinalResponse string
  | UnexpectedCall string
  | MaxLoopsReached
  | ExitedMaxIterations
  | LastText string
  | ErrorCaught exn

record loop_state =
  chat :: session
  result :: response
  loopCount :: nat
  currentSettingsData :: "AppSettings option"
  console :: "event list"

definition MAX_LOOPS :: nat where
  "MAX_LOOPS = 5"

definition emit :: "event \<Rightarrow> loop_state \<Rightarrow> loop_state" where
  "emit e s = s\<lparr>console := console s @ [e]\<rparr>"

fun functionCall :: "part \<Rightarrow> fncall option" where
  "functionCall (FunctionCallPart f) = Some f"
| "functionCall _ = None"

text \<open>
  \<^verbatim>\<open>parts?.filter(part => !!part.functionCall).map(part => part.functionCall)\<close>:
  undefined when there are no parts.
\<close>

definition functionCalls :: "response \<Rightarrow> fncall list option" where
  "functionCalls r =
     (case parts r of
        None \<Rightarrow> None
      | Some ps \<Rightarrow> Some (map (\<lambda>p. the (functionCall p)) (filter (\<lambda>p. functionCall p \<noteq> None) ps)))"

text \<open>
  The outcome of the \<^verbatim>\<open>if (name === ...) ... else if ... else\<close> chain of a loop:
  the handler's result, with the handler invocations made and the value that
  \<^verbatim>\<open>currentSettingsData\<close> has afterwards; the final \<^verbatim>\<open>else\<close>; or an exception,
  with the invocations made before it.
\<close>

datatype dispatched =
    ApiResponse "event list" "AppSettings option" jsval
  | Unexpected
  | Thrown "event list" exn

text \<open>The chain of adjustable-settings; \<open>cur\<close> is \<^verbatim>\<open>currentSettingsData\<close>.\<close>

definition settings_dispatch :: "env \<Rightarrow> string \<Rightarrow> AppSettings option \<Rightarrow> fncall \<Rightarrow> dispatched" where
  "settings_dispatch E userQuery cur fnCall =
     (if name fnCall = ''get_current_app_settings'' then
        ApiResponse [ToolCall ''get_current_app_settings'' []]
          (Some get_current_app_settings) (json_of get_current_app_settings)
      else if name fnCall = ''update_app_settings'' then
        (case cur of
           None \<Rightarrow>
             Thrown [] (Error ''Cannot call update_app_settings without current settings. get_current_app_settings must be called first.'')
         | Some currentSettings \<Rightarrow>
             ApiResponse
               [ToolCall ''update_app_settings''
                  [Obj [(''currentSettings'', json_of currentSettings), (''userRequest'', Str userQuery)]]]
               cur
               (update_app_settings E currentSettings userQuery))
      else Unexpected)"

text \<open>
  One iteration of \<^verbatim>\<open>while (loopCount < MAX_LOOPS)\<close>. The loop of adjustable-settings
  and the loop of the video assistant are the same text around their dispatch chains, so
  the chain is the parameter \<open>dispatch\<close>. In both chains every branch that goes on sets
  \<^verbatim>\<open>functionResponsePart\<close>, so the \<^verbatim>\<open>else\<close> of
  \<^verbatim>\<open>if (functionResponsePart)\<close> is never taken.
\<close>

datatype ctl = Continue loop_state | Break loop_state | Throw exn loop_state

text \<open>
  The branch without a function call: \<^verbatim>\<open>response.text()\<close> is evaluated for the log
  line, and the loop is left.
\<close>

definition final_response :: "loop_state \<Rightarrow> ctl" where
  "final_response s =
     (case response_text (result s) of
        Inl e \<Rightarrow> Throw e s
      | Inr responseText \<Rightarrow> Break (emit (FinalResponse responseText) s))"

definition loop_body :: "(AppSettings option \<Rightarrow> fncall \<Rightarrow> dispatched) \<Rightarrow> env \<Rightarrow> loop_state \<Rightarrow> ctl" where
  "loop_body dispatch E s0 =
     (let s = s0\<lparr>loopCount := loopCount s0 + 1\<rparr>;
          response = result s
      in case functionCalls response of
           None \<Rightarrow> final_response s
         | Some [] \<Rightarrow> final_response s
         | Some (fnCall # rest) \<Rightarrow>
             (let s1 = emit (RequestedCall (loopCount s) (name fnCall)) s
              in case dispatch (currentSettingsData s1) fnCall of
                   Unexpected \<Rightarrow> Break (emit (UnexpectedCall (name fnCall)) s1)
                 | Thrown evs e \<Rightarrow> Throw e (s1\<lparr>console := console s1 @ evs\<rparr>)
                 | ApiResponse evs cur apiResponse \<Rightarrow>
                     (let s2 = s1\<lparr>console := console s1 @ evs, currentSettingsData := cur\<rparr>
                      in case sendMessage E (chat s2) (FunctionResponse (name fnCall) apiResponse) of
                           Inl e \<Rightarrow> Throw e s2
                         | Inr (r, h) \<Rightarrow>
                             (let s3 = s2\<lparr>result := r, chat := h\<rparr>
                              in if loopCount s3 \<ge> MAX_LOOPS
                                 then Break (emit MaxLoopsReached s3)
                                 else Continue s3))))"

function while_loop :: "(AppSettings option \<Rightarrow> fncall \<Rightarrow> dispatched) \<Rightarrow> env \<Rightarrow> loop_state \<Rightarrow> (exn \<times> loop_state) + loop_state" where
  "while_loop dispatch E s =
     (if loopCount s < MAX_LOOPS then
        (case loop_body dispatch E s of
           Continue s' \<Rightarrow> while_loop dispatch E s'
         | Break s' \<Rightarrow> Inr s'
         | Throw e s' \<Rightarrow> Inl (e, s'))
      else Inr s)"
  by pat_completeness auto
termination
proof (relation "measure (\<lambda>(dispatch, E, s). MAX_LOOPS - loopCount s)")
  show "wf (measure (\<lambda>(dispatch, E, s). MAX_LOOPS - loopCount s))"
    by simp
next
  fix dispatch :: "AppSettings option \<Rightarrow> fncall \<Rightarrow> dispatched" and E s s'
  assume lt: "loopCount s < MAX_LOOPS" and c: "loop_body dispatch E s = Continue s'"
  from c have "loopCount s' = loopCount s + 1"
    by (auto simp: loop_body_def final_response_def Let_def emit_def
        split: option.splits list.splits dispatched.splits sum.splits if_splits)
  with lt show "((dispatch, E, s'), (dispatch, E, s)) \<in> measure (\<lambda>(dispatch, E, s). MAX_LOOPS - loopCount s)"
    by simp
qed

declare while_loop.simps [simp del]

text \<open>
  After the loop, still inside the \<^verbatim>\<open>try\<close>: \<^verbatim>\<open>if (loopCount >= MAX_LOOPS)\<close>
  reports the exit, evaluates \<^verbatim>\<open>result.response.text()\<close>, which may throw, and prints
  the text when it is not empty.
\<close>

definition after_loop :: "loop_state \<Rightarrow> (exn \<times> loop_state) + loop_state" where
  "after_loop s =
     (if loopCount s \<ge> MAX_LOOPS then
        (let s1 = emit ExitedMaxIterations s
         in case response_text (result s1) of
              Inl e \<Rightarrow> Inl (e, s1)
            | Inr lastResponseText \<Rightarrow>
                Inr (if lastResponseText \<noteq> [] then emit (LastText lastResponseText) s1 else s1))
      else Inr s)"

text \<open>
  The body of the \<^verbatim>\<open>try\<close> from the declaration of \<^verbatim>\<open>loopCount\<close> on, with the
  \<^verbatim>\<open>catch\<close> that reports an exception; \<open>r\<close> and \<open>h\<close> are the first response and the
  session after the initial \<^verbatim>\<open>chat.sendMessage(userQuery)\<close>.
\<close>

definition initial_state :: "response \<Rightarrow> session \<Rightarrow> loop_state" where
  "initial_state r h =
     \<lparr>chat = h, result = r, loopCount = 0, currentSettingsData = None, console = []\<rparr>"

definition catch :: "(exn \<times> loop_state) + loop_state \<Rightarrow> loop_state" where
  "catch x = (case x of Inl (e, s) \<Rightarrow> emit (ErrorCaught e) s | Inr s \<Rightarrow> s)"

definition chat_loop :: "(AppSettings option \<Rightarrow> fncall \<Rightarrow> dispatched) \<Rightarrow> env \<Rightarrow> loop_state \<Rightarrow> loop_state" where
  "chat_loop dispatch E s =
     catch (case while_loop dispatch E s of
              Inl failure \<Rightarrow> Inl failure
            | Inr s' \<Rightarrow> after_loop s')"

text \<open>
  \<^verbatim>\<open>main\<close> of adjustable-settings, from the first message on: the session and the
  events of the run.
\<close>

definition main :: "env \<Rightarrow> string \<Rightarrow> session \<times> event list" where
  "main E userQuery =
     (case sendMessage E [] (TextMessage userQuery) of
        Inl e \<Rightarrow> ([], [ErrorCaught e])
      | Inr (r, h) \<Rightarrow>
          (let s = chat_loop (settings_dispatch E userQuery) E (initial_state r h)
           in (chat s, console s)))"

section \<open>The video assistant\<close>

text \<open>The operand test of \<^verbatim>\<open>||\<close>.\<close>

fun truthy :: "jsval \<Rightarrow> bool" where
  "truthy Undefined = False"
| "truthy Null = False"
| "truthy (Bool b) = b"
| "truthy (Number n) = (n \<noteq> NaN \<and> n \<noteq> Fin 0)"
| "truthy (Str s) = (s \<noteq> [])"
| "truthy v = True"

text \<open>
  \<^verbatim>\<open>v.join(', ')\<close>: only an array has a \<^verbatim>\<open>join\<close> that can be called, and an own
  property of that name hides it (a parsed value holds no function).
\<close>

fun join_call :: "env \<Rightarrow> jsval \<Rightarrow> exn + string" where
  "join_call E (Arr xs kvs) = (if map_of kvs ''join'' = None then array_join E xs else Inl TypeError)"
| "join_call E v = Inl TypeError"

definition no_timestamps :: jsval where
  "no_timestamps = Obj [(''relevantTimestamps'', Arr [] [])]"

text \<open>
  \<^verbatim>\<open>find_relevant_timestamps({userQuery}, model)\<close>. Destructuring the parameter and
  the template literals of the log line and of the prompt, which convert
  \<^verbatim>\<open>userQuery\<close> to a string, come before the \<^verbatim>\<open>try\<close>; the call, the parse,
  \<^verbatim>\<open>parsed.timestamps || []\<close> and the \<^verbatim>\<open>join\<close> of the log line are inside, and the
  \<^verbatim>\<open>catch\<close> returns the empty list. The conversion is a function of the value
  converted, so the second template literal has the outcome of the first.
\<close>

definition find_relevant_timestamps :: "env \<Rightarrow> jsval \<Rightarrow> exn + jsval" where
  "find_relevant_timestamps E a =
     (case get_prop a ''userQuery'' of
        Inl e \<Rightarrow> Inl e
      | Inr userQuery \<Rightarrow>
          (case to_string E userQuery of
             Inl e \<Rightarrow> Inl e
           | Inr query \<Rightarrow> Inr
               (case generateContent E (TimestampPrompt query) of
                  Inl e \<Rightarrow> no_timestamps
                | Inr responseText \<Rightarrow>
                    (case JSON_parse E responseText of
                       None \<Rightarrow> no_timestamps
                     | Some parsed \<Rightarrow>
                         (case get_prop parsed ''timestamps'' of
                            Inl e \<Rightarrow> no_timestamps
                          | Inr ts \<Rightarrow>
                              (let timestamps = (if truthy ts then ts else Arr [] [])
                               in case join_call E timestamps of
                                    Inl e \<Rightarrow> no_timestamps
                                  | Inr line \<Rightarrow> Obj [(''relevantTimestamps'', timestamps)]))))))"

definition loadImageBase64 :: "env \<Rightarrow> exn + jsval" where
  "loadImageBase64 E =
     (case storyboard E of
        None \<Rightarrow> Inl (Error ''Failed to load storyboard image.'')
      | Some imagePart \<Rightarrow> Inr imagePart)"

text \<open>
  \<^verbatim>\<open>answer_user_query({userQuery, relevantTimestamps}, model)\<close>. The log line, whose
  template literal converts \<^verbatim>\<open>userQuery\<close> and then calls
  \<^verbatim>\<open>relevantTimestamps.join\<close>, the image load and the prompt come before the
  \<^verbatim>\<open>try\<close>, so their exceptions leave the handler.
\<close>

definition answer_user_query :: "env \<Rightarrow> jsval \<Rightarrow> exn + jsval" where
  "answer_user_query E a =
     (case get_prop a ''userQuery'' of
        Inl e \<Rightarrow> Inl e
      | Inr userQuery \<Rightarrow>
          (case get_prop a ''relevantTimestamps'' of
             Inl e \<Rightarrow> Inl e
           | Inr relevantTimestamps \<Rightarrow>
               (case to_string E userQuery of
                  Inl e \<Rightarrow> Inl e
                | Inr query \<Rightarrow>
                    (case join_call E relevantTimestamps of
                       Inl e \<Rightarrow> Inl e
                     | Inr line \<Rightarrow>
                         (case loadImageBase64 E of
                            Inl e \<Rightarrow> Inl e
                          | Inr imagePart \<Rightarrow> Inr
                              (case generateContent E (AnswerPrompt query imagePart) of
                                 Inl e \<Rightarrow> Obj [(''answerText'', Str ''Sorry, I encountered an error analyzing the visual context.'')]
                               | Inr answerText \<Rightarrow> Obj [(''answerText'', Str answerText)]))))))"

text \<open>The chain of the video assistant; it leaves \<open>cur\<close> alone.\<close>

definition video_dispatch :: "env \<Rightarrow> AppSettings option \<Rightarrow> fncall \<Rightarrow> dispatched" where
  "video_dispatch E cur fnCall =
     (if name fnCall = ''find_relevant_timestamps'' then
        (case find_relevant_timestamps E (args fnCall) of
           Inl e \<Rightarrow> Thrown [ToolCall ''find_relevant_timestamps'' [args fnCall]] e
         | Inr apiResponse \<Rightarrow>
             ApiResponse [ToolCall ''find_relevant_timestamps'' [args fnCall]] cur apiResponse)
      else if name fnCall = ''answer_user_query'' then
        (case answer_user_query E (args fnCall) of
           Inl e \<Rightarrow> Thrown [ToolCall ''answer_user_query'' [args fnCall]] e
         | Inr apiResponse \<Rightarrow>
             ApiResponse [ToolCall ''answer_user_query'' [args fnCall]] cur apiResponse)
      else Unexpected)"

definition video_main :: "env \<Rightarrow> session \<times> event list" where
  "video_main E =
     (case sendMessage E [] (TextMessage ''What is Sundar Pichai wearing?'') of
        Inl e \<Rightarrow> ([], [ErrorCaught e])
      | Inr (r, h) \<Rightarrow>
          (let s = chat_loop (video_dispatch E) E (initial_state r h)
           in (chat s, console s)))"

section \<open>The route assistant\<close>

text \<open>
  \<^verbatim>\<open>find_route({rephrasedUserQuery, reasoning})\<close>: the two template literals of its log
  lines convert the arguments to strings; the result quotes the query.
\<close>

definition find_route :: "env \<Rightarrow> jsval \<Rightarrow> exn + jsval" where
  "find_route E a =
     (case get_prop a ''rephrasedUserQuery'' of
        Inl e \<Rightarrow> Inl e
      | Inr rephrasedUserQuery \<Rightarrow>
          (case get_prop a ''reasoning'' of
             Inl e \<Rightarrow> Inl e
           | Inr reasoning \<Rightarrow>
               (case to_string E rephrasedUserQuery of
                  Inl e \<Rightarrow> Inl e
                | Inr query \<Rightarrow>
                    (case to_string E reasoning of
                       Inl e \<Rightarrow> Inl e
                     | Inr why \<Rightarrow> Inr (Obj [(''routeInfo'',
                         Str (''Route calculation based on '' @ [CHR 0x27] @ query @ [CHR 0x27] @
                              '' completed. No route found (placeholder).''))])))))"

text \<open>\<^verbatim>\<open>response.candidates?.[0]?.content?.parts?.[0]?.functionCall\<close>.\<close>

definition first_functionCall :: "response \<Rightarrow> fncall option" where
  "first_functionCall r =
     (case parts r of
        None \<Rightarrow> None
      | Some [] \<Rightarrow> None
      | Some (p # ps) \<Rightarrow> functionCall p)"

text \<open>
  \<^verbatim>\<open>while (!completedFunctionCall)\<close>, with the variables \<^verbatim>\<open>response\<close> and
  \<^verbatim>\<open>result\<close> (here \<open>res\<close>), the session and the console so far. A function call ends the
  loop after its iteration; without one the loop prints the text of
  \<^verbatim>\<open>result.response\<close>, sends \<^verbatim>\<open>Ok. Please help me find it.\<close> and goes round again.
  The loop has no counter, so it is a partial function: \<open>None\<close> is the run that never
  leaves the loop.
\<close>

partial_function (option) route_loop ::
  "env \<Rightarrow> response \<Rightarrow> response \<Rightarrow> session \<Rightarrow> event list \<Rightarrow> ((exn + response) \<times> session \<times> event list) option" where
  "route_loop E response res h out =
     (case first_functionCall response of
        Some fc \<Rightarrow>
          (if name fc = ''find_route'' then
             (case find_route E (args fc) of
                Inl e \<Rightarrow> Some (Inl e, h, out @ [ToolCall ''find_route'' [args fc]])
              | Inr apiResponse \<Rightarrow>
                  (case sendMessage E h (FunctionResponse ''find_route'' apiResponse) of
                     Inl e \<Rightarrow> Some (Inl e, h, out @ [ToolCall ''find_route'' [args fc]])
                   | Inr (r, h') \<Rightarrow> Some (Inr r, h', out @ [ToolCall ''find_route'' [args fc]])))
           else Some (Inr response, h, out @ [UnexpectedCall (name fc)]))
      | None \<Rightarrow>
          (case response_text res of
             Inl e \<Rightarrow> Some (Inl e, h, out)
           | Inr responseText \<Rightarrow>
               (case sendMessage E h (TextMessage ''Ok. Please help me find it.'') of
                  Inl e \<Rightarrow> Some (Inl e, h, out @ [Assistant responseText])
                | Inr (r, h') \<Rightarrow> route_loop E res r h' (out @ [Assistant responseText]))))"

text \<open>
  \<^verbatim>\<open>main\<close> of the route assistant, from the first message on: the two user turns, the
  loop, the final response, and the \<^verbatim>\<open>catch\<close>. Each \<^verbatim>\<open>response.text()\<close> may
  throw.
\<close>

definition route_main :: "env \<Rightarrow> string \<Rightarrow> (session \<times> event list) option" where
  "route_main E query2_raw =
     (case sendMessage E [] (TextMessage ''Tell me more about the Pacific Science Center accessibility.'') of
        Inl e \<Rightarrow> Some ([], [ErrorCaught e])
      | Inr (r1, h1) \<Rightarrow>
          (case response_text r1 of
             Inl e \<Rightarrow> Some (h1, [ErrorCaught e])
           | Inr responseText \<Rightarrow>
               (case sendMessage E h1 (TextMessage query2_raw) of
                  Inl e \<Rightarrow> Some (h1, [Assistant responseText, ErrorCaught e])
                | Inr (r2, h2) \<Rightarrow>
                    (case route_loop E r2 r2 h2 [Assistant responseText] of
                       None \<Rightarrow> None
                     | Some (Inl e, h, out) \<Rightarrow> Some (h, out @ [ErrorCaught e])
                     | Some (Inr response, h, out) \<Rightarrow>
                         (case response_text response of
                            Inl e \<Rightarrow> Some (h, out @ [ErrorCaught e])
                          | Inr final \<Rightarrow> Some (h, out @ [FinalResponse final]))))))"

section \<open>Auxiliary notions\<close>

text \<open>The named own properties of an object or array; none for the other values.\<close>

fun props :: "jsval \<Rightarrow> (string \<times> jsval) list option" where
  "props (Obj kvs) = Some kvs"
| "props (Arr xs kvs) = Some kvs"
| "props v = None"

text \<open>The property \<open>k\<close> as \<^verbatim>\<open>p.k\<close> reads it from the properties \<open>kvs\<close>.\<close>

definition lookup :: "(string \<times> jsval) list \<Rightarrow> string \<Rightarrow> jsval" where
  "lookup kvs k = (case map_of kvs k of None \<Rightarrow> Undefined | Some v \<Rightarrow> v)"

text \<open>The number that one line of the validation block assigns when nothing throws.\<close>

definition clamp :: "real \<Rightarrow> real \<Rightarrow> jsnum \<Rightarrow> jsval" where
  "clamp lo hi n = Number (Math_max (Fin lo) (Math_min (Fin hi) n))"


text \<open>The handler invocations among the events.\<close>

fun is_ToolCall :: "event \<Rightarrow> bool" where
  "is_ToolCall (ToolCall nm as) = True"
| "is_ToolCall ev = False"

definition tool_calls :: "event list \<Rightarrow> event list" where
  "tool_calls evs = filter is_ToolCall evs"

text \<open>The messages sent to the chat model, read off the session.\<close>

fun sent :: "turn list \<Rightarrow> message list" where
  "sent [] = []"
| "sent (UserTurn m # ts) = m # sent ts"
| "sent (ModelTurn r # ts) = sent ts"

section \<open>Test environments\<close>

text \<open>
  Concrete collaborators for evaluating the programs: a chat model that plays a fixed
  script of answers, one per message received, and fails once the script is over; a
  transactional model with one fixed outcome; a parser with one fixed outcome. Of the
  runtime they hold what the inputs below need: a string is converted to itself, and
  converting anything else to a string throws; a string that is not a numeral and an
  object without conversion methods of its own are converted to the number NaN; no
  element is joined.
\<close>

definition scripted :: "(exn + response) list \<Rightarrow> turn list \<Rightarrow> message \<Rightarrow> exn + response" where
  "scripted rs h m =
     (if length (sent h) < length rs then rs ! length (sent h)
      else Inl (TransportError ''connection closed''))"

definition test_env :: "(exn + response) list \<Rightarrow> (exn + string) \<Rightarrow> jsval option \<Rightarrow> env" where
  "test_env rs gen parsed =
     \<lparr>send = scripted rs, generateContent = (\<lambda>p. gen), JSON_parse = (\<lambda>t. parsed),
      string_number = (\<lambda>s. NaN), object_number = (\<lambda>v. Inr NaN), array_join = (\<lambda>xs. Inr []),
      to_string = (\<lambda>v. case v of Str s \<Rightarrow> Inr s | _ \<Rightarrow> Inl TypeError),
      storyboard = Some (Str ''storyboard'')\<rparr>"

definition call_response :: "string \<Rightarrow> jsval \<Rightarrow> exn + response" where
  "call_response nm a =
     Inr \<lparr>parts = Some [FunctionCallPart \<lparr>name = nm, args = a\<rparr>], response_text = Inr []\<rparr>"

definition text_response :: "string \<Rightarrow> exn + response" where
  "text_response t = Inr \<lparr>parts = Some [TextPart t], response_text = Inr t\<rparr>"

section \<open>Auxiliary notions for the loop\<close>

text \<open>The state that an iteration, or the loop, leaves.\<close>

fun ctl_state :: "ctl \<Rightarrow> loop_state" where
  "ctl_state (Continue s) = s"
| "ctl_state (Break s) = s"
| "ctl_state (Throw e s) = s"

fun final_state :: "(exn \<times> loop_state) + loop_state \<Rightarrow> loop_state" where
  "final_state (Inl (e, s)) = s"
| "final_state (Inr s) = s"

text \<open>The handler invocations that a dispatch chain made.\<close>

fun dispatch_events :: "dispatched \<Rightarrow> event list" where
  "dispatch_events (ApiResponse evs cur v) = evs"
| "dispatch_events (Thrown evs e) = evs"
| "dispatch_events Unexpected = []"

text \<open>
  A dispatch chain invokes one handler where it produces a result, and at most one where
  it throws.
\<close>

definition one_call_each :: "(AppSettings option \<Rightarrow> fncall \<Rightarrow> dispatched) \<Rightarrow> bool" where
  "one_call_each d =
     (\<forall>cur f. case d cur f of
        ApiResponse evs c v \<Rightarrow> length (tool_calls evs) = 1
      | Thrown evs e \<Rightarrow> length (tool_calls evs) \<le> 1
      | Unexpected \<Rightarrow> True)"

text \<open>
  What a stretch of the run may change: the counter does not decrease, there are no more
  new handler invocations than iterations and no more new messages than new invocations,
  and the session and the console only grow at the end.
\<close>

definition step_ok :: "loop_state \<Rightarrow> loop_state \<Rightarrow> bool" where
  "step_ok s s' \<longleftrightarrow>
     loopCount s \<le> loopCount s' \<and>
     length (tool_calls (console s')) + loopCount s \<le> length (tool_calls (console s)) + loopCount s' \<and>
     length (sent (chat s')) + length (tool_calls (console s)) \<le> length (sent (chat s)) + length (tool_calls (console s')) \<and>
     prefix (chat s) (chat s') \<and> prefix (console s) (console s')"

text \<open>
  Scripts for the chat model: six requests for the current settings in a row; five, after
  which the sixth response is blocked and its text cannot be read; five, after
  which the model client fails; four, and then an answer; a plain answer; a request for a
  tool that is not declared;
  a request to update before any request to read. And a chat model that answers every
  message with a question and never requests a function call.
\<close>

definition talkative :: env where
  "talkative =
     \<lparr>send = (\<lambda>h m. text_response ''Where would you like to go?''),
      generateContent = (\<lambda>p. Inr []), JSON_parse = (\<lambda>t. None),
      string_number = (\<lambda>s. NaN), object_number = (\<lambda>v. Inr NaN), array_join = (\<lambda>xs. Inr []),
      to_string = (\<lambda>v. case v of Str s \<Rightarrow> Inr s | _ \<Rightarrow> Inl TypeError),
      storyboard = None\<rparr>"

definition six_calls :: env where
  "six_calls = test_env
     [call_response ''get_current_app_settings'' (Obj []),
      call_response ''get_current_app_settings'' (Obj []),
      call_response ''get_current_app_settings'' (Obj []),
      call_response ''get_current_app_settings'' (Obj []),
      call_response ''get_current_app_settings'' (Obj []),
      Inr \<lparr>parts = Some [TextPart ''One more step.'',
                          FunctionCallPart \<lparr>name = ''get_current_app_settings'', args = Obj []\<rparr>],
           response_text = Inr ''One more step.''\<rparr>]
     (Inr []) None"

definition blocked_sixth :: env where
  "blocked_sixth = test_env
     [call_response ''get_current_app_settings'' (Obj []),
      call_response ''get_current_app_settings'' (Obj []),
      call_response ''get_current_app_settings'' (Obj []),
      call_response ''get_current_app_settings'' (Obj []),
      call_response ''get_current_app_settings'' (Obj []),
      Inr \<lparr>parts = None, response_text = Inl (Error ''Response was blocked'')\<rparr>]
     (Inr []) None"

definition five_calls_then_failure :: env where
  "five_calls_then_failure = test_env
     [call_response ''get_current_app_settings'' (Obj []),
      call_response ''get_current_app_settings'' (Obj []),
      call_response ''get_current_app_settings'' (Obj []),
      call_response ''get_current_app_settings'' (Obj []),
      call_response ''get_current_app_settings'' (Obj [])]
     (Inr []) None"

text \<open>
  A model that requests the settings and then an update, passing arguments of its own
  making; and one that requests two tools in one response.
\<close>

definition requested_args :: jsval where
  "requested_args = Obj
     [(''currentSettings'', Obj [(''darkMode'', Bool True)]),
      (''userRequest'', Str ''Switch to dark mode'')]"

definition own_arguments :: env where
  "own_arguments = test_env
     [call_response ''get_current_app_settings'' (Obj [(''verbose'', Bool True)]),
      call_response ''update_app_settings'' requested_args,
      text_response ''Done.'']
     (Inl (TransportError ''unavailable'')) None"


definition timestamps_request :: response where
  "timestamps_request =
     \<lparr>parts = Some [FunctionCallPart \<lparr>name = ''find_relevant_timestamps'',
                       args = Obj [(''userQuery'', Str ''What is Sundar Pichai wearing?'')]\<rparr>],
      response_text = Inr []\<rparr>"

definition answer_in_fifth :: env where
  "answer_in_fifth = test_env
     [call_response ''get_current_app_settings'' (Obj []),
      call_response ''get_current_app_settings'' (Obj []),
      call_response ''get_current_app_settings'' (Obj []),
      call_response ''get_current_app_settings'' (Obj []),
      text_response ''Nothing to change.'']
     (Inr []) None"

definition plain_answer :: env where
  "plain_answer = test_env [text_response ''Hello!''] (Inr []) None"


definition update_first :: env where
  "update_first = test_env [call_response ''update_app_settings'' (Obj []), text_response ''Done.''] (Inr []) None"

text \<open>
  Payloads that parse and are not settings: one lacks the field \<^verbatim>\<open>darkMode\<close>, one
  lacks the ranged field \<^verbatim>\<open>fontSizeFactor\<close>, one holds a word in it.
\<close>

definition partial_payload :: jsval where
  "partial_payload = Obj
     [(''fontSizeFactor'', Number (Fin 5)),
      (''notificationsEnabled'', Bool True),
      (''notificationVolume'', Number (Fin 0.7)),
      (''reduceMotion'', Bool False),
      (''autoPlayVideos'', Bool True),
      (''highContrast'', Bool False),
      (''textToSpeechRate'', Number (Fin 1))]"

definition without_font_size :: jsval where
  "without_font_size = Obj
     [(''darkMode'', Bool True),
      (''notificationsEnabled'', Bool True),
      (''notificationVolume'', Number (Fin 3)),
      (''reduceMotion'', Bool False),
      (''autoPlayVideos'', Bool True),
      (''highContrast'', Bool False),
      (''textToSpeechRate'', Number (Fin 1))]"

definition font_size_in_words :: jsval where
  "font_size_in_words = Obj
     [(''darkMode'', Bool True),
      (''fontSizeFactor'', Str ''large''),
      (''notificationsEnabled'', Bool True),
      (''notificationVolume'', Number (Fin 0.7)),
      (''reduceMotion'', Bool False),
      (''autoPlayVideos'', Bool True),
      (''highContrast'', Bool False),
      (''textToSpeechRate'', Number (Fin 1))]"

text \<open>
  A model that requests the settings and then an update, with a transactional model whose
  payload lacks \<^verbatim>\<open>fontSizeFactor\<close>.
\<close>

definition update_without_font_size :: env where
  "update_without_font_size = test_env
     [call_response ''get_current_app_settings'' (Obj []),
      call_response ''update_app_settings'' (Obj []),
      text_response ''Done.'']
     (Inr ''{...}'') (Some without_font_size)"

section \<open>Properties of the structured output validation\<close>

lemma clamp_num:
  assumes "lo \<le> hi" "v \<noteq> NaN"
  shows "clamp lo hi v =
         Number (if num_lt v (Fin lo) then Fin lo else if num_lt (Fin hi) v then Fin hi else v)"
  using assms by (cases v) (auto simp: clamp_def Math_max_def Math_min_def)

lemma get_prop_props:
  "props p = Some kvs \<Longrightarrow> get_prop p k = Inr (lookup kvs k)"
  by (cases p) (auto simp: lookup_def)

lemma lookup_update:
  "lookup (AList.update k' x kvs) k = (if k = k' then x else lookup kvs k)"
  by (simp add: lookup_def update_conv')

lemma clamp_field_props:
  assumes "props p = Some kvs"
    and "ToNumber (string_number E) (object_number E) (lookup kvs k) = Inr n"
  shows "\<exists>p'. clamp_field E lo hi k p = Inr p' \<and>
           props p' = Some (AList.update k (clamp lo hi n) kvs)"
  using assms by (cases p) (auto simp: clamp_field_def clamp_def lookup_def)

lemma clamp_field_throws:
  assumes "props p = Some kvs"
    and "ToNumber (string_number E) (object_number E) (lookup kvs k) = Inl e"
  shows "clamp_field E lo hi k p = Inl e"
  using assms by (cases p) (auto simp: clamp_field_def lookup_def)

lemma clamp_field_no_props:
  assumes "props p = None"
  shows "\<exists>e. clamp_field E lo hi k p = Inl e"
  using assms by (cases p) (auto simp: clamp_field_def)

text \<open>
  On an object or array whose three ranged properties convert to numbers the validation
  block does not throw; it leaves the value with these properties assigned, in this order.
\<close>

lemma validate_settings_props:
  assumes "props p = Some kvs"
    and "ToNumber (string_number E) (object_number E) (lookup kvs ''fontSizeFactor'') = Inr n1"
    and "ToNumber (string_number E) (object_number E) (lookup kvs ''notificationVolume'') = Inr n2"
    and "ToNumber (string_number E) (object_number E) (lookup kvs ''textToSpeechRate'') = Inr n3"
  shows "\<exists>p'. validate_settings E p = Inr p' \<and>
     props p' = Some
       (AList.update ''textToSpeechRate'' (clamp 0.5 2.0 n3)
       (AList.update ''notificationVolume'' (clamp 0.0 1.0 n2)
       (AList.update ''fontSizeFactor'' (clamp 0.8 2.0 n1) kvs)))"
proof -
  obtain p1 where 1: "clamp_field E 0.8 2.0 ''fontSizeFactor'' p = Inr p1"
    and q1: "props p1 = Some (AList.update ''fontSizeFactor'' (clamp 0.8 2.0 n1) kvs)"
    using clamp_field_props [OF assms(1,2)] by blast
  have c2: "ToNumber (string_number E) (object_number E)
      (lookup (AList.update ''fontSizeFactor'' (clamp 0.8 2.0 n1) kvs) ''notificationVolume'') = Inr n2"
    using assms(3) by (simp add: lookup_update)
  obtain p2 where 2: "clamp_field E 0.0 1.0 ''notificationVolume'' p1 = Inr p2"
    and q2: "props p2 = Some (AList.update ''notificationVolume'' (clamp 0.0 1.0 n2)
              (AList.update ''fontSizeFactor'' (clamp 0.8 2.0 n1) kvs))"
    using clamp_field_props [OF q1 c2] by blast
  have c3: "ToNumber (string_number E) (object_number E)
      (lookup (AList.update ''notificationVolume'' (clamp 0.0 1.0 n2)
              (AList.update ''fontSizeFactor'' (clamp 0.8 2.0 n1) kvs)) ''textToSpeechRate'') = Inr n3"
    using assms(4) by (simp add: lookup_update)
  obtain p3 where 3: "clamp_field E 0.5 2.0 ''textToSpeechRate'' p2 = Inr p3"
    and q3: "props p3 = Some (AList.update ''textToSpeechRate'' (clamp 0.5 2.0 n3)
              (AList.update ''notificationVolume'' (clamp 0.0 1.0 n2)
              (AList.update ''fontSizeFactor'' (clamp 0.8 2.0 n1) kvs)))"
    using clamp_field_props [OF q2 c3] by blast
  have "validate_settings E p = Inr p3"
    using 1 2 3 by (simp add: validate_settings_def)
  with q3 show ?thesis by blast
qed

lemma validate_settings_no_props:
  assumes "props p = None"
  shows "\<exists>e. validate_settings E p = Inl e"
  using clamp_field_no_props [OF assms, of E "0.8" "2.0" "''fontSizeFactor''"]
  by (auto simp: validate_settings_def)

text \<open>
  What the validation block does achieve. When the payload is an object and none of the
  three conversions throws, the value that \<open>update_app_settings\<close> returns holds in each
  ranged field the result of \<^verbatim>\<open>Math.max(lo, Math.min(hi, n))\<close> for the number \<open>n\<close> that
  the field converts to; when \<open>n\<close> is not NaN this is \<open>lo\<close> if \<open>n < lo\<close>, \<open>hi\<close> if
  \<open>hi < n\<close>, and \<open>n\<close> otherwise.
\<close>

lemma ranged_numbers_are_clamped:
  assumes "generateContent E (UpdatePrompt currentSettings userRequest) = Inr responseText"
      and "JSON_parse E responseText = Some proposedSettings"
      and "props proposedSettings = Some kvs"
      and "ToNumber (string_number E) (object_number E) (lookup kvs ''fontSizeFactor'') = Inr n1"
      and "ToNumber (string_number E) (object_number E) (lookup kvs ''notificationVolume'') = Inr n2"
      and "ToNumber (string_number E) (object_number E) (lookup kvs ''textToSpeechRate'') = Inr n3"
  shows "get_prop (update_app_settings E currentSettings userRequest) ''fontSizeFactor'' = Inr (clamp 0.8 2.0 n1)"
    and "get_prop (update_app_settings E currentSettings userRequest) ''notificationVolume'' = Inr (clamp 0.0 1.0 n2)"
    and "get_prop (update_app_settings E currentSettings userRequest) ''textToSpeechRate'' = Inr (clamp 0.5 2.0 n3)"
proof -
  obtain p' where v: "validate_settings E proposedSettings = Inr p'"
    and q: "props p' = Some
       (AList.update ''textToSpeechRate'' (clamp 0.5 2.0 n3)
       (AList.update ''notificationVolume'' (clamp 0.0 1.0 n2)
       (AList.update ''fontSizeFactor'' (clamp 0.8 2.0 n1) kvs)))"
    using validate_settings_props [OF assms(3-6)] by blast
  have u: "update_app_settings E currentSettings userRequest = p'"
    using assms(1,2) v by (simp add: update_app_settings_def)
  show "get_prop (update_app_settings E currentSettings userRequest) ''fontSizeFactor'' = Inr (clamp 0.8 2.0 n1)"
    by (simp add: u get_prop_props [OF q] lookup_update)
  show "get_prop (update_app_settings E currentSettings userRequest) ''notificationVolume'' = Inr (clamp 0.0 1.0 n2)"
    by (simp add: u get_prop_props [OF q] lookup_update)
  show "get_prop (update_app_settings E currentSettings userRequest) ''textToSpeechRate'' = Inr (clamp 0.5 2.0 n3)"
    by (simp add: u get_prop_props [OF q] lookup_update)
qed

text \<open>
  A conversion that throws is caught with everything else: the handler returns the
  settings it was given.
\<close>

lemma conversion_failure_falls_back:
  assumes "generateContent E (UpdatePrompt currentSettings userRequest) = Inr responseText"
      and "JSON_parse E responseText = Some proposedSettings"
      and "props proposedSettings = Some kvs"
      and "ToNumber (string_number E) (object_number E) (lookup kvs ''fontSizeFactor'') = Inl e"
  shows "update_app_settings E currentSettings userRequest = json_of currentSettings"
  using assms clamp_field_throws [OF assms(3,4), of "0.8" "2.0"]
  by (simp add: update_app_settings_def validate_settings_def)

text \<open>
  C2, where the code departs from it. The transactional call returns a text that parses
  to a payload without the field \<^verbatim>\<open>fontSizeFactor\<close>, or to one that holds the word
  \<^verbatim>\<open>large\<close> in it. The validation block converts what it reads to NaN, which
  \<^verbatim>\<open>Math.min\<close> and \<^verbatim>\<open>Math.max\<close> pass on, assigns NaN to the field and returns the
  payload: the value handed onward for the ranged field is NaN, which is neither the
  minimum, nor the maximum, nor a number of the range. The other two ranged fields of the
  same payloads are clamped: 3 becomes 1. In a run of \<open>main\<close> the payload with NaN is
  what the loop sends to the chat model as the result of the update.
\<close>

theorem ranged_field_not_a_number:
  "update_app_settings (test_env [] (Inr ''{...}'') (Some without_font_size)) get_current_app_settings ''bigger''
       = Obj [(''darkMode'', Bool True),
              (''notificationsEnabled'', Bool True),
              (''notificationVolume'', Number (Fin 1)),
              (''reduceMotion'', Bool False),
              (''autoPlayVideos'', Bool True),
              (''highContrast'', Bool False),
              (''textToSpeechRate'', Number (Fin 1)),
              (''fontSizeFactor'', Number NaN)]
   \<and> update_app_settings (test_env [] (Inr ''{...}'') (Some font_size_in_words)) get_current_app_settings ''bigger''
       = Obj [(''darkMode'', Bool True),
              (''fontSizeFactor'', Number NaN),
              (''notificationsEnabled'', Bool True),
              (''notificationVolume'', Number (Fin 0.7)),
              (''reduceMotion'', Bool False),
              (''autoPlayVideos'', Bool True),
              (''highContrast'', Bool False),
              (''textToSpeechRate'', Number (Fin 1))]
   \<and> sent (fst (main update_without_font_size ''bigger'')) =
       [TextMessage ''bigger'',
        FunctionResponse ''get_current_app_settings'' (json_of get_current_app_settings),
        FunctionResponse ''update_app_settings''
          (Obj [(''darkMode'', Bool True),
                (''notificationsEnabled'', Bool True),
                (''notificationVolume'', Number (Fin 1)),
                (''reduceMotion'', Bool False),
                (''autoPlayVideos'', Bool True),
                (''highContrast'', Bool False),
                (''textToSpeechRate'', Number (Fin 1)),
                (''fontSizeFactor'', Number NaN)])]"
  by (simp add: main_def update_without_font_size_def without_font_size_def font_size_in_words_def
      test_env_def scripted_def call_response_def text_response_def
      sendMessage_def view_def append_turn_def initial_state_def chat_loop_def while_loop.simps
      loop_body_def functionCalls_def settings_dispatch_def emit_def MAX_LOOPS_def Let_def
      after_loop_def update_app_settings_def final_response_def catch_def
      validate_settings_def clamp_field_def Math_max_def Math_min_def)

text \<open>
  C5. When the transactional call fails, when its text does not parse, and when it parses
  to something that is not an object (\<^verbatim>\<open>null\<close> or a primitive), \<open>update_app_settings\<close>
  returns the \<open>currentSettings\<close> it was given, unchanged. When the transactional call
  of \<open>find_relevant_timestamps\<close>, made with the prompt built from the query, fails or
  returns a text that does not parse, the handler returns its fallback, the empty list of
  timestamps. Both return a value: no exception reaches the loop.
\<close>

theorem handlers_fall_back:
  "(generateContent E (UpdatePrompt currentSettings userRequest) = Inl e \<longrightarrow>
      update_app_settings E currentSettings userRequest = json_of currentSettings)
   \<and> (generateContent E (UpdatePrompt currentSettings userRequest) = Inr responseText \<and>
        JSON_parse E responseText = None \<longrightarrow>
      update_app_settings E currentSettings userRequest = json_of currentSettings)
   \<and> (generateContent E (UpdatePrompt currentSettings userRequest) = Inr responseText \<and>
        JSON_parse E responseText = Some proposedSettings \<and> props proposedSettings = None \<longrightarrow>
      update_app_settings E currentSettings userRequest = json_of currentSettings)
   \<and> (get_prop a ''userQuery'' = Inr userQuery \<and> to_string E userQuery = Inr query \<and>
        generateContent E (TimestampPrompt query) = Inl e \<longrightarrow>
      find_relevant_timestamps E a = Inr no_timestamps)
   \<and> (get_prop a ''userQuery'' = Inr userQuery \<and> to_string E userQuery = Inr query \<and>
        generateContent E (TimestampPrompt query) = Inr responseText \<and>
        JSON_parse E responseText = None \<longrightarrow>
      find_relevant_timestamps E a = Inr no_timestamps)"
proof (intro conjI impI)
  assume "generateContent E (UpdatePrompt currentSettings userRequest) = Inl e"
  then show "update_app_settings E currentSettings userRequest = json_of currentSettings"
    by (simp add: update_app_settings_def)
next
  assume "generateContent E (UpdatePrompt currentSettings userRequest) = Inr responseText \<and>
        JSON_parse E responseText = None"
  then show "update_app_settings E currentSettings userRequest = json_of currentSettings"
    by (simp add: update_app_settings_def)
next
  assume a: "generateContent E (UpdatePrompt currentSettings userRequest) = Inr responseText \<and>
        JSON_parse E responseText = Some proposedSettings \<and> props proposedSettings = None"
  then obtain x where "validate_settings E proposedSettings = Inl x"
    using validate_settings_no_props by blast
  with a show "update_app_settings E currentSettings userRequest = json_of currentSettings"
    by (simp add: update_app_settings_def)
next
  assume "get_prop a ''userQuery'' = Inr userQuery \<and> to_string E userQuery = Inr query \<and>
        generateContent E (TimestampPrompt query) = Inl e"
  then show "find_relevant_timestamps E a = Inr no_timestamps"
    by (simp add: find_relevant_timestamps_def)
next
  assume "get_prop a ''userQuery'' = Inr userQuery \<and> to_string E userQuery = Inr query \<and>
        generateContent E (TimestampPrompt query) = Inr responseText \<and>
        JSON_parse E responseText = None"
  then show "find_relevant_timestamps E a = Inr no_timestamps"
    by (simp add: find_relevant_timestamps_def)
qed

theorem handlers_fall_back_witness:
  "generateContent (test_env [] (Inr ''not-json'') None) (UpdatePrompt get_current_app_settings ''Turn on dark mode.'') = Inr ''not-json''
   \<and> JSON_parse (test_env [] (Inr ''not-json'') None) ''not-json'' = None
   \<and> update_app_settings (test_env [] (Inr ''not-json'') None) get_current_app_settings ''Turn on dark mode.''
       = json_of get_current_app_settings
   \<and> generateContent (test_env [] (Inl (TransportError ''timeout'')) None) (UpdatePrompt get_current_app_settings ''Turn on dark mode.'') = Inl (TransportError ''timeout'')
   \<and> update_app_settings (test_env [] (Inl (TransportError ''timeout'')) None) get_current_app_settings ''Turn on dark mode.''
       = json_of get_current_app_settings
   \<and> to_string (test_env [] (Inr ''not-json'') None) (Str ''What is he wearing?'') = Inr ''What is he wearing?''
   \<and> generateContent (test_env [] (Inr ''not-json'') None) (TimestampPrompt ''What is he wearing?'') = Inr ''not-json''
   \<and> find_relevant_timestamps (test_env [] (Inr ''not-json'') None) (Obj [(''userQuery'', Str ''What is he wearing?'')])
       = Inr no_timestamps"
  using handlers_fall_back [of "test_env [] (Inr ''not-json'') None" get_current_app_settings
      "''Turn on dark mode.''" TypeError "''not-json''" Null
      "Obj [(''userQuery'', Str ''What is he wearing?'')]" "Str ''What is he wearing?''" "''What is he wearing?''"]
    handlers_fall_back [of "test_env [] (Inl (TransportError ''timeout'')) None" get_current_app_settings
      "''Turn on dark mode.''" "TransportError ''timeout''"]
  by (simp add: test_env_def)

text \<open>
  The string conversion of the query stands before the \<^verbatim>\<open>try\<close> of
  \<open>find_relevant_timestamps\<close>: when it throws, no call is made and the exception leaves
  the handler.
\<close>

lemma conversion_error_leaves_handler:
  assumes "get_prop a ''userQuery'' = Inr userQuery" "to_string E userQuery = Inl e"
  shows "find_relevant_timestamps E a = Inl e"
  using assms by (simp add: find_relevant_timestamps_def)

text \<open>
  C6, where the code departs from it. The transactional call returns a text that parses
  to a payload without the required field \<^verbatim>\<open>darkMode\<close>. The handler does not fall
  back: it clamps the ranged fields and returns the partial payload, which differs from
  the settings it was given and still has no \<^verbatim>\<open>darkMode\<close>.
\<close>

theorem missing_required_field_returned:
  "generateContent (test_env [] (Inr ''{...}'') (Some partial_payload))
       (UpdatePrompt get_current_app_settings ''bigger'') = Inr ''{...}''
   \<and> JSON_parse (test_env [] (Inr ''{...}'') (Some partial_payload)) ''{...}'' = Some partial_payload
   \<and> get_prop partial_payload ''darkMode'' = Inr Undefined
   \<and> update_app_settings (test_env [] (Inr ''{...}'') (Some partial_payload)) get_current_app_settings ''bigger''
       = Obj [(''fontSizeFactor'', Number (Fin 2)),
              (''notificationsEnabled'', Bool True),
              (''notificationVolume'', Number (Fin 0.7)),
              (''reduceMotion'', Bool False),
              (''autoPlayVideos'', Bool True),
              (''highContrast'', Bool False),
              (''textToSpeechRate'', Number (Fin 1))]
   \<and> update_app_settings (test_env [] (Inr ''{...}'') (Some partial_payload)) get_current_app_settings ''bigger''
       \<noteq> json_of get_current_app_settings"
  by (simp add: test_env_def partial_payload_def update_app_settings_def validate_settings_def
      clamp_field_def Math_max_def Math_min_def get_current_app_settings_def json_of_def)

section \<open>Properties of the function calling loop\<close>

lemma loop_body_final:
  assumes "functionCalls (result s) = None \<or> functionCalls (result s) = Some []"
    and "response_text (result s) = Inr t"
  shows "loop_body d E s =
    Break (s\<lparr>loopCount := Suc (loopCount s), console := console s @ [FinalResponse t]\<rparr>)"
  using assms by (auto simp: loop_body_def final_response_def Let_def emit_def)

lemma loop_body_blocked:
  assumes "functionCalls (result s) = None \<or> functionCalls (result s) = Some []"
    and "response_text (result s) = Inl e"
  shows "loop_body d E s = Throw e (s\<lparr>loopCount := Suc (loopCount s)\<rparr>)"
  using assms by (auto simp: loop_body_def final_response_def Let_def emit_def)

lemma loop_body_unexpected:
  assumes "functionCalls (result s) = Some (f # fs)" "d (currentSettingsData s) f = Unexpected"
  shows "loop_body d E s =
    Break (s\<lparr>loopCount := Suc (loopCount s),
             console := console s @ [RequestedCall (Suc (loopCount s)) (name f), UnexpectedCall (name f)]\<rparr>)"
  using assms by (simp add: loop_body_def Let_def emit_def)

lemma loop_body_thrown:
  assumes "functionCalls (result s) = Some (f # fs)" "d (currentSettingsData s) f = Thrown evs e"
  shows "loop_body d E s =
    Throw e (s\<lparr>loopCount := Suc (loopCount s),
             console := console s @ RequestedCall (Suc (loopCount s)) (name f) # evs\<rparr>)"
  using assms by (simp add: loop_body_def Let_def emit_def)

lemma loop_body_send_failed:
  assumes "functionCalls (result s) = Some (f # fs)" "d (currentSettingsData s) f = ApiResponse evs cur v"
    "sendMessage E (chat s) (FunctionResponse (name f) v) = Inl e"
  shows "loop_body d E s =
    Throw e (s\<lparr>loopCount := Suc (loopCount s), currentSettingsData := cur,
             console := console s @ RequestedCall (Suc (loopCount s)) (name f) # evs\<rparr>)"
  using assms by (simp add: loop_body_def Let_def emit_def)

lemma loop_body_sent:
  assumes "functionCalls (result s) = Some (f # fs)" "d (currentSettingsData s) f = ApiResponse evs cur v"
    "sendMessage E (chat s) (FunctionResponse (name f) v) = Inr (r, h)"
  shows "loop_body d E s =
    (if MAX_LOOPS \<le> Suc (loopCount s) then
       Break (s\<lparr>chat := h, result := r, loopCount := Suc (loopCount s), currentSettingsData := cur,
             console := console s @ RequestedCall (Suc (loopCount s)) (name f) # evs @ [MaxLoopsReached]\<rparr>)
     else
       Continue (s\<lparr>chat := h, result := r, loopCount := Suc (loopCount s), currentSettingsData := cur,
             console := console s @ RequestedCall (Suc (loopCount s)) (name f) # evs\<rparr>))"
  using assms by (simp add: loop_body_def Let_def emit_def)

lemma sendMessage_Inr:
  "sendMessage E h m = Inr (r, h') \<Longrightarrow> h' = h @ [UserTurn m, ModelTurn r]"
  by (auto simp: sendMessage_def append_turn_def view_def split: sum.splits)

lemma sent_append [simp]: "sent (xs @ ys) = sent xs @ sent ys"
  by (induction xs rule: sent.induct) auto

lemma tool_calls_append [simp]: "tool_calls (xs @ ys) = tool_calls xs @ tool_calls ys"
  by (simp add: tool_calls_def)

lemma tool_calls_simps [simp]:
  "tool_calls [] = []"
  "tool_calls (ToolCall nm as # evs) = ToolCall nm as # tool_calls evs"
  "tool_calls (RequestedCall n nm # evs) = tool_calls evs"
  "tool_calls (Assistant t # evs) = tool_calls evs"
  "tool_calls (FinalResponse t # evs) = tool_calls evs"
  "tool_calls (UnexpectedCall nm # evs) = tool_calls evs"
  "tool_calls (MaxLoopsReached # evs) = tool_calls evs"
  "tool_calls (ExitedMaxIterations # evs) = tool_calls evs"
  "tool_calls (LastText t # evs) = tool_calls evs"
  "tool_calls (ErrorCaught e # evs) = tool_calls evs"
  by (simp_all add: tool_calls_def)

text \<open>The seven ways through one iteration.\<close>

lemma loop_body_effect:
  obtains (final) t where "functionCalls (result s) = None \<or> functionCalls (result s) = Some []"
      "response_text (result s) = Inr t"
      "loop_body d E s = Break (s\<lparr>loopCount := Suc (loopCount s),
             console := console s @ [FinalResponse t]\<rparr>)"
  | (blocked) e where "functionCalls (result s) = None \<or> functionCalls (result s) = Some []"
      "response_text (result s) = Inl e"
      "loop_body d E s = Throw e (s\<lparr>loopCount := Suc (loopCount s)\<rparr>)"
  | (unexpected) f fs where "functionCalls (result s) = Some (f # fs)"
      "d (currentSettingsData s) f = Unexpected"
      "loop_body d E s = Break (s\<lparr>loopCount := Suc (loopCount s),
             console := console s @ [RequestedCall (Suc (loopCount s)) (name f), UnexpectedCall (name f)]\<rparr>)"
  | (thrown) f fs evs e where "functionCalls (result s) = Some (f # fs)"
      "d (currentSettingsData s) f = Thrown evs e"
      "loop_body d E s = Throw e (s\<lparr>loopCount := Suc (loopCount s),
             console := console s @ RequestedCall (Suc (loopCount s)) (name f) # evs\<rparr>)"
  | (send_failed) f fs evs cur v e where "functionCalls (result s) = Some (f # fs)"
      "d (currentSettingsData s) f = ApiResponse evs cur v"
      "sendMessage E (chat s) (FunctionResponse (name f) v) = Inl e"
      "loop_body d E s = Throw e (s\<lparr>loopCount := Suc (loopCount s), currentSettingsData := cur,
             console := console s @ RequestedCall (Suc (loopCount s)) (name f) # evs\<rparr>)"
  | (last) f fs evs cur v r where "functionCalls (result s) = Some (f # fs)"
      "d (currentSettingsData s) f = ApiResponse evs cur v"
      "sendMessage E (chat s) (FunctionResponse (name f) v) = Inr (r, chat s @ [UserTurn (FunctionResponse (name f) v), ModelTurn r])"
      "MAX_LOOPS \<le> Suc (loopCount s)"
      "loop_body d E s = Break (s\<lparr>chat := chat s @ [UserTurn (FunctionResponse (name f) v), ModelTurn r],
             result := r, loopCount := Suc (loopCount s), currentSettingsData := cur,
             console := console s @ RequestedCall (Suc (loopCount s)) (name f) # evs @ [MaxLoopsReached]\<rparr>)"
  | (continue) f fs evs cur v r where "functionCalls (result s) = Some (f # fs)"
      "d (currentSettingsData s) f = ApiResponse evs cur v"
      "sendMessage E (chat s) (FunctionResponse (name f) v) = Inr (r, chat s @ [UserTurn (FunctionResponse (name f) v), ModelTurn r])"
      "Suc (loopCount s) < MAX_LOOPS"
      "loop_body d E s = Continue (s\<lparr>chat := chat s @ [UserTurn (FunctionResponse (name f) v), ModelTurn r],
             result := r, loopCount := Suc (loopCount s), currentSettingsData := cur,
             console := console s @ RequestedCall (Suc (loopCount s)) (name f) # evs\<rparr>)"
proof -
  have none: thesis if n: "functionCalls (result s) = None \<or> functionCalls (result s) = Some []"
  proof (cases "response_text (result s)")
    case (Inl e)
    show ?thesis using blocked [OF n Inl] loop_body_blocked [OF n Inl] by simp
  next
    case (Inr t)
    show ?thesis using final [OF n Inr] loop_body_final [OF n Inr] by simp
  qed
  show thesis
  proof (cases "functionCalls (result s)")
    case None
    then show ?thesis using none by simp
  next
    case (Some cs)
    show ?thesis
    proof (cases cs)
      case Nil
      then show ?thesis using Some none by simp
    next
      case (Cons f fs)
      with Some have fc: "functionCalls (result s) = Some (f # fs)" by simp
      show ?thesis
      proof (cases "d (currentSettingsData s) f")
        case Unexpected
        then show ?thesis using unexpected [OF fc] loop_body_unexpected [where d = d, OF fc] by simp
      next
        case (Thrown evs e)
        then show ?thesis using thrown [OF fc] loop_body_thrown [where d = d, OF fc] by simp
      next
        case (ApiResponse evs cur v)
        show ?thesis
        proof (cases "sendMessage E (chat s) (FunctionResponse (name f) v)")
          case (Inl e)
          then show ?thesis using send_failed [OF fc ApiResponse] loop_body_send_failed [where d = d, OF fc ApiResponse] by simp
        next
          case (Inr rh)
          obtain r h where rh: "rh = (r, h)" by (cases rh)
          with Inr have sm: "sendMessage E (chat s) (FunctionResponse (name f) v) = Inr (r, h)" by simp
          have h: "h = chat s @ [UserTurn (FunctionResponse (name f) v), ModelTurn r]"
            using sendMessage_Inr [OF sm] .
          show ?thesis
          proof (cases "MAX_LOOPS \<le> Suc (loopCount s)")
            case True
            then show ?thesis
              using last [OF fc ApiResponse _ True] loop_body_sent [where d = d, OF fc ApiResponse sm] sm h by simp
          next
            case False
            then show ?thesis
              using continue [OF fc ApiResponse] loop_body_sent [where d = d, OF fc ApiResponse sm] sm h by simp
          qed
        qed
      qed
    qed
  qed
qed

lemma settings_dispatch_one_call: "one_call_each (settings_dispatch E q)"
  by (auto simp: one_call_each_def settings_dispatch_def split: option.splits)

lemma video_dispatch_one_call: "one_call_each (video_dispatch E)"
  by (auto simp: one_call_each_def video_dispatch_def split: sum.splits)

lemma one_call_ApiResponse:
  assumes "one_call_each d" "d cur f = ApiResponse evs c v"
  shows "length (tool_calls evs) = 1"
proof -
  from assms(1) have "case d cur f of
        ApiResponse evs c v \<Rightarrow> length (tool_calls evs) = 1
      | Thrown evs e \<Rightarrow> length (tool_calls evs) \<le> 1
      | Unexpected \<Rightarrow> True"
    unfolding one_call_each_def by blast
  then show ?thesis using assms(2) by simp
qed

lemma one_call_Thrown:
  assumes "one_call_each d" "d cur f = Thrown evs e"
  shows "length (tool_calls evs) \<le> 1"
proof -
  from assms(1) have "case d cur f of
        ApiResponse evs c v \<Rightarrow> length (tool_calls evs) = 1
      | Thrown evs e \<Rightarrow> length (tool_calls evs) \<le> 1
      | Unexpected \<Rightarrow> True"
    unfolding one_call_each_def by blast
  then show ?thesis using assms(2) by simp
qed

lemma step_ok_refl: "step_ok s s"
  by (simp add: step_ok_def)

lemma step_ok_trans:
  assumes "step_ok s s'" "step_ok s' s''"
  shows "step_ok s s''"
proof -
  have 1: "loopCount s \<le> loopCount s''"
    using assms unfolding step_ok_def by linarith
  have 2: "length (tool_calls (console s'')) + loopCount s \<le> length (tool_calls (console s)) + loopCount s''"
    using assms unfolding step_ok_def by linarith
  have 3: "length (sent (chat s'')) + length (tool_calls (console s)) \<le> length (sent (chat s)) + length (tool_calls (console s''))"
    using assms unfolding step_ok_def by linarith
  have 4: "prefix (chat s) (chat s'')" "prefix (console s) (console s'')"
    using assms unfolding step_ok_def by (blast intro: prefix_order.trans)+
  show ?thesis
    unfolding step_ok_def using 1 2 3 4 by blast
qed

lemma loop_body_loopCount: "loopCount (ctl_state (loop_body d E s)) = Suc (loopCount s)"
  by (cases rule: loop_body_effect [of s d E]) simp_all

lemma loop_body_step_ok:
  assumes "one_call_each d"
  shows "step_ok s (ctl_state (loop_body d E s))"
proof (cases rule: loop_body_effect [of s d E])
  case (final t)
  then show ?thesis by (simp add: step_ok_def)
next
  case (blocked e)
  then show ?thesis by (simp add: step_ok_def)
next
  case (unexpected f fs)
  then show ?thesis by (simp add: step_ok_def)
next
  case (thrown f fs evs e)
  then show ?thesis using one_call_Thrown [OF assms thrown(2)] by (simp add: step_ok_def)
next
  case (send_failed f fs evs cur v e)
  then show ?thesis using one_call_ApiResponse [OF assms send_failed(2)] by (simp add: step_ok_def)
next
  case (last f fs evs cur v r)
  then show ?thesis using one_call_ApiResponse [OF assms last(2)] by (simp add: step_ok_def)
next
  case (continue f fs evs cur v r)
  then show ?thesis using one_call_ApiResponse [OF assms continue(2)] by (simp add: step_ok_def)
qed

lemma while_loop_step_ok:
  assumes "one_call_each d"
  shows "step_ok s (final_state (while_loop d E s))"
  using assms
proof (induction d E s rule: while_loop.induct)
  case (1 d E s)
  show ?case
  proof (cases "loopCount s < MAX_LOOPS")
    case False
    then show ?thesis by (simp add: while_loop.simps [of d E s] step_ok_refl)
  next
    case True
    have b: "step_ok s (ctl_state (loop_body d E s))"
      using loop_body_step_ok [OF "1.prems"] .
    show ?thesis
    proof (cases "loop_body d E s")
      case (Continue s')
      then have "step_ok s' (final_state (while_loop d E s'))"
        using "1.IH" "1.prems" True by simp
      moreover have "step_ok s s'" using b Continue by simp
      ultimately show ?thesis
        using True Continue step_ok_trans by (simp add: while_loop.simps [of d E s])
    next
      case (Break s')
      then show ?thesis using True b by (simp add: while_loop.simps [of d E s])
    next
      case (Throw e s')
      then show ?thesis using True b by (simp add: while_loop.simps [of d E s])
    qed
  qed
qed

lemma while_loop_loopCount_le:
  assumes "loopCount s \<le> MAX_LOOPS"
  shows "loopCount (final_state (while_loop d E s)) \<le> MAX_LOOPS"
  using assms
proof (induction d E s rule: while_loop.induct)
  case (1 d E s)
  show ?case
  proof (cases "loopCount s < MAX_LOOPS")
    case False
    then show ?thesis using "1.prems" by (simp add: while_loop.simps [of d E s])
  next
    case True
    have c: "loopCount (ctl_state (loop_body d E s)) = Suc (loopCount s)"
      by (rule loop_body_loopCount)
    show ?thesis
    proof (cases "loop_body d E s")
      case (Continue s')
      then have "loopCount s' \<le> MAX_LOOPS" using c True by simp
      then show ?thesis using "1.IH" True Continue by (simp add: while_loop.simps [of d E s])
    next
      case (Break s')
      then show ?thesis using True c by (simp add: while_loop.simps [of d E s])
    next
      case (Throw e s')
      then show ?thesis using True c by (simp add: while_loop.simps [of d E s])
    qed
  qed
qed

lemma initial_loopCount [simp]: "loopCount (initial_state r h) = 0"
  and initial_chat [simp]: "chat (initial_state r h) = h"
  and initial_console [simp]: "console (initial_state r h) = []"
  and initial_result [simp]: "result (initial_state r h) = r"
  and initial_settings [simp]: "currentSettingsData (initial_state r h) = None"
  by (simp_all add: initial_state_def)

text \<open>What the block after the loop and the \<^verbatim>\<open>catch\<close> add to the console.\<close>

lemma chat_loop_cases:
  obtains (caught) e fs where "while_loop d E s = Inl (e, fs)"
      "chat_loop d E s = fs\<lparr>console := console fs @ [ErrorCaught e]\<rparr>"
  | (below) fs where "while_loop d E s = Inr fs" "loopCount fs < MAX_LOOPS" "chat_loop d E s = fs"
  | (maximum) fs where "while_loop d E s = Inr fs" "MAX_LOOPS \<le> loopCount fs"
      "chat_loop d E s = fs\<lparr>console := console fs @ ExitedMaxIterations #
          (case response_text (result fs) of
             Inl e \<Rightarrow> [ErrorCaught e]
           | Inr t \<Rightarrow> if t = [] then [] else [LastText t])\<rparr>"
proof (cases "while_loop d E s")
  case (Inl p)
  obtain e fs where "p = (e, fs)" by (cases p)
  with Inl show ?thesis using caught by (simp add: chat_loop_def catch_def emit_def)
next
  case (Inr fs)
  show ?thesis
  proof (cases "loopCount fs < MAX_LOOPS")
    case True
    with Inr show ?thesis using below by (simp add: chat_loop_def catch_def after_loop_def)
  next
    case False
    with Inr show ?thesis using maximum [of fs]
      by (simp add: chat_loop_def catch_def after_loop_def emit_def Let_def split: sum.splits)
  qed
qed

lemma chat_loop_step_ok:
  assumes "one_call_each d"
  shows "step_ok s (chat_loop d E s)"
proof -
  have w: "step_ok s (final_state (while_loop d E s))"
    using while_loop_step_ok [OF assms] .
  show ?thesis
  proof (cases rule: chat_loop_cases [of d E s])
    case (caught e fs)
    then show ?thesis using w by (simp add: step_ok_def)
  next
    case (below fs)
    then show ?thesis using w by simp
  next
    case (maximum fs)
    then show ?thesis using w by (simp add: step_ok_def split: sum.splits)
  qed
qed

lemma chat_loop_loopCount:
  "loopCount (chat_loop d E s) = loopCount (final_state (while_loop d E s))"
  by (cases rule: chat_loop_cases [of d E s]) simp_all

lemma chat_loop_bounds:
  assumes "one_call_each d"
  shows "loopCount (chat_loop d E (initial_state r h)) \<le> MAX_LOOPS"
    and "length (tool_calls (console (chat_loop d E (initial_state r h))))
            \<le> loopCount (chat_loop d E (initial_state r h))"
    and "length (sent (chat (chat_loop d E (initial_state r h))))
            \<le> length (sent h) + length (tool_calls (console (chat_loop d E (initial_state r h))))"
proof -
  show "loopCount (chat_loop d E (initial_state r h)) \<le> MAX_LOOPS"
    using while_loop_loopCount_le [of "initial_state r h" d E] by (simp add: chat_loop_loopCount)
  have "step_ok (initial_state r h) (chat_loop d E (initial_state r h))"
    using chat_loop_step_ok [OF assms] .
  then show "length (tool_calls (console (chat_loop d E (initial_state r h))))
            \<le> loopCount (chat_loop d E (initial_state r h))"
    and "length (sent (chat (chat_loop d E (initial_state r h))))
            \<le> length (sent h) + length (tool_calls (console (chat_loop d E (initial_state r h))))"
    by (simp_all add: step_ok_def)
qed

lemma main_bounds:
  "length (tool_calls (snd (main E q))) \<le> MAX_LOOPS \<and> length (sent (fst (main E q))) \<le> Suc MAX_LOOPS"
proof (cases "sendMessage E [] (TextMessage q)")
  case (Inl e)
  then show ?thesis by (simp add: main_def)
next
  case (Inr p)
  obtain r h where p: "p = (r, h)" by (cases p)
  have h: "h = [UserTurn (TextMessage q), ModelTurn r]"
    using sendMessage_Inr [of E "[]" "TextMessage q" r h] Inr p by simp
  note b = chat_loop_bounds [OF settings_dispatch_one_call, of E q E r h]
  have "main E q = (chat (chat_loop (settings_dispatch E q) E (initial_state r h)),
                    console (chat_loop (settings_dispatch E q) E (initial_state r h)))"
    using Inr p by (simp add: main_def Let_def)
  then show ?thesis using b h by simp
qed

lemma video_main_bounds:
  "length (tool_calls (snd (video_main E))) \<le> MAX_LOOPS \<and> length (sent (fst (video_main E))) \<le> Suc MAX_LOOPS"
proof (cases "sendMessage E [] (TextMessage ''What is Sundar Pichai wearing?'')")
  case (Inl e)
  then show ?thesis by (simp add: video_main_def)
next
  case (Inr p)
  obtain r h where p: "p = (r, h)" by (cases p)
  have h: "h = [UserTurn (TextMessage ''What is Sundar Pichai wearing?''), ModelTurn r]"
    using sendMessage_Inr [of E "[]" _ r h] Inr p by simp
  note b = chat_loop_bounds [OF video_dispatch_one_call, of E E r h]
  have "video_main E = (chat (chat_loop (video_dispatch E) E (initial_state r h)),
                    console (chat_loop (video_dispatch E) E (initial_state r h)))"
    using Inr p by (simp add: video_main_def Let_def)
  then show ?thesis using b h by simp
qed

lemma while_loop_Break:
  "loopCount s < MAX_LOOPS \<Longrightarrow> loop_body d E s = Break s' \<Longrightarrow> while_loop d E s = Inr s'"
  by (simp add: while_loop.simps [of d E s])

lemma while_loop_Throw:
  "loopCount s < MAX_LOOPS \<Longrightarrow> loop_body d E s = Throw e s' \<Longrightarrow> while_loop d E s = Inl (e, s')"
  by (simp add: while_loop.simps [of d E s])

lemma main_first_round:
  assumes "sendMessage E [] (TextMessage q) = Inr (r, h)"
  shows "main E q = (chat (chat_loop (settings_dispatch E q) E (initial_state r h)),
                     console (chat_loop (settings_dispatch E q) E (initial_state r h)))"
  using assms by (simp add: main_def Let_def)

lemma MAX_LOOPS_pos: "0 < MAX_LOOPS" "Suc 0 < MAX_LOOPS"
  by (simp_all add: MAX_LOOPS_def)

text \<open>
  What holds of a response without a function call whose text can be read, in every
  iteration: the loop ends in that iteration without an exception; the only event is the
  final response, carrying exactly the text of that response; the session is as it was, so
  no turn is appended and no message sent, and no handler is invoked. What follows the
  loop is \<open>after_loop\<close>. For the first response of \<open>main\<close> this gives the whole run:
  the session after the first exchange and the one event.
\<close>

theorem no_tool_call_terminates:
  "(loopCount s < MAX_LOOPS \<and> (functionCalls (result s) = None \<or> functionCalls (result s) = Some []) \<and>
      response_text (result s) = Inr t \<longrightarrow>
      while_loop d E s =
        Inr (s\<lparr>loopCount := Suc (loopCount s), console := console s @ [FinalResponse t]\<rparr>)
      \<and> chat_loop d E s =
        catch (after_loop (s\<lparr>loopCount := Suc (loopCount s), console := console s @ [FinalResponse t]\<rparr>)))
   \<and> (sendMessage E [] (TextMessage q) = Inr (r, h) \<and> (functionCalls r = None \<or> functionCalls r = Some []) \<and>
      response_text r = Inr t \<longrightarrow>
      main E q = (h, [FinalResponse t]))"
proof (intro conjI impI)
  assume a: "loopCount s < MAX_LOOPS \<and> (functionCalls (result s) = None \<or> functionCalls (result s) = Some []) \<and>
      response_text (result s) = Inr t"
  then show w: "while_loop d E s =
        Inr (s\<lparr>loopCount := Suc (loopCount s), console := console s @ [FinalResponse t]\<rparr>)"
    using while_loop_Break [of s d E] loop_body_final [of s t d E] by simp
  then show "chat_loop d E s =
        catch (after_loop (s\<lparr>loopCount := Suc (loopCount s), console := console s @ [FinalResponse t]\<rparr>))"
    by (simp add: chat_loop_def)
next
  assume a: "sendMessage E [] (TextMessage q) = Inr (r, h) \<and> (functionCalls r = None \<or> functionCalls r = Some []) \<and>
      response_text r = Inr t"
  let ?s = "initial_state r h"
  have "while_loop (settings_dispatch E q) E ?s =
        Inr (?s\<lparr>loopCount := Suc (loopCount ?s), console := console ?s @ [FinalResponse t]\<rparr>)"
    using a while_loop_Break [of ?s "settings_dispatch E q" E] loop_body_final [of ?s t "settings_dispatch E q" E]
      MAX_LOOPS_pos by simp
  then have "chat_loop (settings_dispatch E q) E ?s =
     ?s\<lparr>loopCount := Suc 0, console := [FinalResponse t]\<rparr>"
    using MAX_LOOPS_pos by (simp add: chat_loop_def catch_def after_loop_def)
  then show "main E q = (h, [FinalResponse t])"
    using a main_first_round [of E q r h] by simp
qed

theorem no_tool_call_terminates_witness:
  "sendMessage plain_answer [] (TextMessage ''Hi'') =
      Inr (\<lparr>parts = Some [TextPart ''Hello!''], response_text = Inr ''Hello!''\<rparr>,
           [UserTurn (TextMessage ''Hi''), ModelTurn \<lparr>parts = Some [TextPart ''Hello!''], response_text = Inr ''Hello!''\<rparr>])
   \<and> functionCalls \<lparr>parts = Some [TextPart ''Hello!''], response_text = Inr ''Hello!''\<rparr> = Some []
   \<and> main plain_answer ''Hi'' =
       ([UserTurn (TextMessage ''Hi''), ModelTurn \<lparr>parts = Some [TextPart ''Hello!''], response_text = Inr ''Hello!''\<rparr>],
        [FinalResponse ''Hello!''])"
  using no_tool_call_terminates [of "initial_state \<lparr>parts = Some [TextPart ''Hello!''], response_text = Inr ''Hello!''\<rparr> []"
     "''Hello!''" _ plain_answer "''Hi''"
     "\<lparr>parts = Some [TextPart ''Hello!''], response_text = Inr ''Hello!''\<rparr>"
     "[UserTurn (TextMessage ''Hi''), ModelTurn \<lparr>parts = Some [TextPart ''Hello!''], response_text = Inr ''Hello!''\<rparr>]"]
  by (simp add: plain_answer_def test_env_def scripted_def text_response_def sendMessage_def view_def
      append_turn_def functionCalls_def)

text \<open>
  C3, where the code departs from it. The model requests a tool four times and answers in
  plain text in the fifth iteration. The loop ends there as in any other iteration and
  prints the answer as the final response; but the counter is then at the maximum, and
  the block after the loop reports an exit due to the maximum number of iterations and
  prints the text once more, as the last text of an aborted run.
\<close>

theorem final_answer_in_fifth_iteration:
  "snd (main answer_in_fifth ''Bigger text'') =
     [RequestedCall 1 ''get_current_app_settings'', ToolCall ''get_current_app_settings'' [],
      RequestedCall 2 ''get_current_app_settings'', ToolCall ''get_current_app_settings'' [],
      RequestedCall 3 ''get_current_app_settings'', ToolCall ''get_current_app_settings'' [],
      RequestedCall 4 ''get_current_app_settings'', ToolCall ''get_current_app_settings'' [],
      FinalResponse ''Nothing to change.'', ExitedMaxIterations, LastText ''Nothing to change.'']"
  by (simp add: main_def answer_in_fifth_def test_env_def scripted_def call_response_def
      text_response_def sendMessage_def view_def append_turn_def initial_state_def chat_loop_def
      while_loop.simps loop_body_def functionCalls_def settings_dispatch_def emit_def
      MAX_LOOPS_def Let_def get_current_app_settings_def json_of_def after_loop_def
      final_response_def catch_def)





text \<open>
  C10. In adjustable-settings, when the model requests \<^verbatim>\<open>update_app_settings\<close> while
  \<^verbatim>\<open>currentSettingsData\<close> is still null, the loop throws the error of the guard
  without invoking the handler and without sending anything; in \<open>main\<close>, where this is
  the first response, the run consists of the request line and the caught error.
\<close>

theorem update_without_settings_throws:
  "(loopCount s < MAX_LOOPS \<and> functionCalls (result s) = Some (f # fs) \<and>
      name f = ''update_app_settings'' \<and> currentSettingsData s = None \<longrightarrow>
      while_loop (settings_dispatch E q) E s =
        Inl (Error ''Cannot call update_app_settings without current settings. get_current_app_settings must be called first.'',
             s\<lparr>loopCount := Suc (loopCount s),
               console := console s @ [RequestedCall (Suc (loopCount s)) (name f)]\<rparr>))
   \<and> (sendMessage E [] (TextMessage q) = Inr (r, h) \<and> functionCalls r = Some (f # fs) \<and>
      name f = ''update_app_settings'' \<longrightarrow>
      main E q = (h, [RequestedCall 1 ''update_app_settings'',
        ErrorCaught (Error ''Cannot call update_app_settings without current settings. get_current_app_settings must be called first.'')]))"
proof (intro conjI impI)
  assume a: "loopCount s < MAX_LOOPS \<and> functionCalls (result s) = Some (f # fs) \<and>
      name f = ''update_app_settings'' \<and> currentSettingsData s = None"
  then have "settings_dispatch E q (currentSettingsData s) f =
      Thrown [] (Error ''Cannot call update_app_settings without current settings. get_current_app_settings must be called first.'')"
    by (simp add: settings_dispatch_def)
  then show "while_loop (settings_dispatch E q) E s =
        Inl (Error ''Cannot call update_app_settings without current settings. get_current_app_settings must be called first.'',
             s\<lparr>loopCount := Suc (loopCount s),
               console := console s @ [RequestedCall (Suc (loopCount s)) (name f)]\<rparr>)"
    using a while_loop_Throw [of s "settings_dispatch E q" E]
      loop_body_thrown [of s f fs "settings_dispatch E q" "[]" _ E] by simp
next
  assume a: "sendMessage E [] (TextMessage q) = Inr (r, h) \<and> functionCalls r = Some (f # fs) \<and>
      name f = ''update_app_settings''"
  let ?s = "initial_state r h"
  have "settings_dispatch E q (currentSettingsData ?s) f =
      Thrown [] (Error ''Cannot call update_app_settings without current settings. get_current_app_settings must be called first.'')"
    using a by (simp add: settings_dispatch_def)
  then have "while_loop (settings_dispatch E q) E ?s =
        Inl (Error ''Cannot call update_app_settings without current settings. get_current_app_settings must be called first.'',
             ?s\<lparr>loopCount := Suc (loopCount ?s),
               console := console ?s @ [RequestedCall (Suc (loopCount ?s)) (name f)]\<rparr>)"
    using a while_loop_Throw [of ?s "settings_dispatch E q" E]
      loop_body_thrown [of ?s f fs "settings_dispatch E q" "[]" _ E] MAX_LOOPS_pos by simp
  then show "main E q = (h, [RequestedCall 1 ''update_app_settings'',
        ErrorCaught (Error ''Cannot call update_app_settings without current settings. get_current_app_settings must be called first.'')])"
    using a by (simp add: main_first_round [of E q r h] chat_loop_def catch_def emit_def)
qed

theorem update_without_settings_throws_witness:
  "main update_first ''Bigger text'' =
     ([UserTurn (TextMessage ''Bigger text''),
       ModelTurn \<lparr>parts = Some [FunctionCallPart \<lparr>name = ''update_app_settings'', args = Obj []\<rparr>], response_text = Inr []\<rparr>],
      [RequestedCall 1 ''update_app_settings'',
       ErrorCaught (Error ''Cannot call update_app_settings without current settings. get_current_app_settings must be called first.'')])"
proof -
  let ?r = "\<lparr>parts = Some [FunctionCallPart \<lparr>name = ''update_app_settings'', args = Obj []\<rparr>], response_text = Inr []\<rparr>"
  let ?h = "[UserTurn (TextMessage ''Bigger text''), ModelTurn ?r]"
  have s: "sendMessage update_first [] (TextMessage ''Bigger text'') = Inr (?r, ?h)"
    by (simp add: update_first_def test_env_def scripted_def call_response_def sendMessage_def
        view_def append_turn_def)
  have f: "functionCalls ?r = Some [\<lparr>name = ''update_app_settings'', args = Obj []\<rparr>]"
    by (simp add: functionCalls_def)
  show ?thesis
    using update_without_settings_throws [where E = update_first and q = "''Bigger text''" and r = ?r and h = ?h
        and f = "\<lparr>name = ''update_app_settings'', args = Obj []\<rparr>" and fs = "[]"] s f
    by simp
qed

lemma loop_body_console:
  assumes "functionCalls (result s) = Some (f # fs)"
  shows "console (ctl_state (loop_body d E s)) =
     console s @ RequestedCall (Suc (loopCount s)) (name f) #
       (case d (currentSettingsData s) f of
          Unexpected \<Rightarrow> [UnexpectedCall (name f)]
        | Thrown evs e \<Rightarrow> evs
        | ApiResponse evs cur v \<Rightarrow>
            evs @ (case sendMessage E (chat s) (FunctionResponse (name f) v) of
                     Inl e \<Rightarrow> []
                   | Inr p \<Rightarrow> if MAX_LOOPS \<le> Suc (loopCount s) then [MaxLoopsReached] else []))"
  using assms by (cases rule: loop_body_effect [of s d E]) auto


lemma settings_dispatch_tool_calls:
  "tool_calls (dispatch_events (settings_dispatch E q cur f)) =
     (if name f = ''get_current_app_settings'' then [ToolCall ''get_current_app_settings'' []]
      else if name f = ''update_app_settings'' then
        (case cur of
           None \<Rightarrow> []
         | Some currentSettings \<Rightarrow>
             [ToolCall ''update_app_settings''
                [Obj [(''currentSettings'', json_of currentSettings), (''userRequest'', Str q)]]])
      else [])"
  by (simp add: settings_dispatch_def split: option.splits)

lemma video_dispatch_tool_calls:
  "tool_calls (dispatch_events (video_dispatch E cur f)) =
     (if name f = ''find_relevant_timestamps'' \<or> name f = ''answer_user_query''
      then [ToolCall (name f) [args f]] else [])"
  by (simp add: video_dispatch_def split: sum.splits)

lemma loop_body_tool_calls:
  assumes "functionCalls (result s) = Some (f # fs)"
  shows "tool_calls (console (ctl_state (loop_body d E s))) =
     tool_calls (console s) @ tool_calls (dispatch_events (d (currentSettingsData s) f))"
  using assms by (simp add: loop_body_console split: dispatched.splits sum.splits)



text \<open>
  C4, as stated, fails in adjustable-settings: the model requests
  \<^verbatim>\<open>get_current_app_settings\<close> with an argument and then \<^verbatim>\<open>update_app_settings\<close>
  with settings and a request text of its own; the first handler is invoked without
  arguments, the second with the settings that the loop stored and the user's original
  query.
\<close>

theorem arguments_not_verbatim_counterexample:
  "tool_calls (snd (main own_arguments ''My eyes hurt'')) =
     [ToolCall ''get_current_app_settings'' [],
      ToolCall ''update_app_settings''
        [Obj [(''currentSettings'', json_of get_current_app_settings), (''userRequest'', Str ''My eyes hurt'')]]]
   \<and> [Obj [(''currentSettings'', json_of get_current_app_settings), (''userRequest'', Str ''My eyes hurt'')]]
       \<noteq> [requested_args]
   \<and> [] \<noteq> [Obj [(''verbose'', Bool True)]]"
  by (simp add: main_def own_arguments_def requested_args_def test_env_def scripted_def call_response_def text_response_def
      sendMessage_def view_def append_turn_def initial_state_def chat_loop_def while_loop.simps
      loop_body_def functionCalls_def settings_dispatch_def emit_def MAX_LOOPS_def Let_def
      get_current_app_settings_def json_of_def after_loop_def update_app_settings_def
      final_response_def catch_def)

lemma loop_body_sends:
  assumes "functionCalls (result s) = Some (f # fs)"
    and "d (currentSettingsData s) f = ApiResponse evs cur v"
    and "sendMessage E (chat s) (FunctionResponse (name f) v) = Inr (r, h)"
  shows "chat (ctl_state (loop_body d E s)) = h \<and> result (ctl_state (loop_body d E s)) = r \<and>
         currentSettingsData (ctl_state (loop_body d E s)) = cur \<and>
         sent h = sent (chat s) @ [FunctionResponse (name f) v]"
  using loop_body_sent [where d = d, OF assms] sendMessage_Inr [OF assms(3)] by simp

text \<open>
  C4, amended. When the first function call of the response names a tool of the chain, the
  iteration invokes that tool's handler exactly once, and what it sends back to the model
  as the function response is the result of that handler on the arguments it was given.
  In the video assistant the handler is applied to the arguments of the request as they
  are; if it throws, the exception leaves the loop and nothing is sent. In
  adjustable-settings \<^verbatim>\<open>get_current_app_settings\<close> is invoked without arguments and
  its result is stored and sent; \<^verbatim>\<open>update_app_settings\<close>, when current settings are
  stored, is applied to those stored settings and the user's original query in place of
  the arguments of the request, and its result is sent.
\<close>

theorem dispatch_arguments:
  assumes "functionCalls (result s) = Some (f # fs)"
  shows "(name f = ''find_relevant_timestamps'' \<or> name f = ''answer_user_query'' \<longrightarrow>
            tool_calls (console (ctl_state (loop_body (video_dispatch E) E s))) =
            tool_calls (console s) @ [ToolCall (name f) [args f]])
       \<and> (name f = ''get_current_app_settings'' \<longrightarrow>
            tool_calls (console (ctl_state (loop_body (settings_dispatch E q) E s))) =
            tool_calls (console s) @ [ToolCall ''get_current_app_settings'' []])
       \<and> (name f = ''update_app_settings'' \<and> currentSettingsData s = Some currentSettings \<longrightarrow>
            tool_calls (console (ctl_state (loop_body (settings_dispatch E q) E s))) =
            tool_calls (console s) @
              [ToolCall ''update_app_settings''
                 [Obj [(''currentSettings'', json_of currentSettings), (''userRequest'', Str q)]]])
       \<and> (name f = ''find_relevant_timestamps'' \<and> find_relevant_timestamps E (args f) = Inr v \<and>
          sendMessage E (chat s) (FunctionResponse ''find_relevant_timestamps'' v) = Inr (r, h) \<longrightarrow>
            chat (ctl_state (loop_body (video_dispatch E) E s)) = h \<and>
            result (ctl_state (loop_body (video_dispatch E) E s)) = r \<and>
            sent h = sent (chat s) @ [FunctionResponse ''find_relevant_timestamps'' v])
       \<and> (name f = ''find_relevant_timestamps'' \<and> find_relevant_timestamps E (args f) = Inl e \<longrightarrow>
            loop_body (video_dispatch E) E s =
              Throw e (s\<lparr>loopCount := Suc (loopCount s),
                console := console s @ [RequestedCall (Suc (loopCount s)) (name f), ToolCall (name f) [args f]]\<rparr>))
       \<and> (name f = ''answer_user_query'' \<and> answer_user_query E (args f) = Inr v \<and>
          sendMessage E (chat s) (FunctionResponse ''answer_user_query'' v) = Inr (r, h) \<longrightarrow>
            chat (ctl_state (loop_body (video_dispatch E) E s)) = h \<and>
            result (ctl_state (loop_body (video_dispatch E) E s)) = r \<and>
            sent h = sent (chat s) @ [FunctionResponse ''answer_user_query'' v])
       \<and> (name f = ''answer_user_query'' \<and> answer_user_query E (args f) = Inl e \<longrightarrow>
            loop_body (video_dispatch E) E s =
              Throw e (s\<lparr>loopCount := Suc (loopCount s),
                console := console s @ [RequestedCall (Suc (loopCount s)) (name f), ToolCall (name f) [args f]]\<rparr>))
       \<and> (name f = ''get_current_app_settings'' \<and>
          sendMessage E (chat s) (FunctionResponse ''get_current_app_settings'' (json_of get_current_app_settings)) = Inr (r, h) \<longrightarrow>
            chat (ctl_state (loop_body (settings_dispatch E q) E s)) = h \<and>
            result (ctl_state (loop_body (settings_dispatch E q) E s)) = r \<and>
            currentSettingsData (ctl_state (loop_body (settings_dispatch E q) E s)) = Some get_current_app_settings \<and>
            sent h = sent (chat s) @ [FunctionResponse ''get_current_app_settings'' (json_of get_current_app_settings)])
       \<and> (name f = ''update_app_settings'' \<and> currentSettingsData s = Some currentSettings \<and>
          sendMessage E (chat s) (FunctionResponse ''update_app_settings'' (update_app_settings E currentSettings q)) = Inr (r, h) \<longrightarrow>
            chat (ctl_state (loop_body (settings_dispatch E q) E s)) = h \<and>
            result (ctl_state (loop_body (settings_dispatch E q) E s)) = r \<and>
            sent h = sent (chat s) @ [FunctionResponse ''update_app_settings'' (update_app_settings E currentSettings q)])"
proof (intro conjI impI)
  assume "name f = ''find_relevant_timestamps'' \<or> name f = ''answer_user_query''"
  then show "tool_calls (console (ctl_state (loop_body (video_dispatch E) E s))) =
            tool_calls (console s) @ [ToolCall (name f) [args f]]"
    by (simp add: loop_body_tool_calls [OF assms] video_dispatch_tool_calls)
next
  assume "name f = ''get_current_app_settings''"
  then show "tool_calls (console (ctl_state (loop_body (settings_dispatch E q) E s))) =
            tool_calls (console s) @ [ToolCall ''get_current_app_settings'' []]"
    by (simp add: loop_body_tool_calls [OF assms] settings_dispatch_tool_calls)
next
  assume "name f = ''update_app_settings'' \<and> currentSettingsData s = Some currentSettings"
  then show "tool_calls (console (ctl_state (loop_body (settings_dispatch E q) E s))) =
            tool_calls (console s) @
              [ToolCall ''update_app_settings''
                 [Obj [(''currentSettings'', json_of currentSettings), (''userRequest'', Str q)]]]"
    by (simp add: loop_body_tool_calls [OF assms] settings_dispatch_tool_calls)
next
  assume a: "name f = ''find_relevant_timestamps'' \<and> find_relevant_timestamps E (args f) = Inr v \<and>
          sendMessage E (chat s) (FunctionResponse ''find_relevant_timestamps'' v) = Inr (r, h)"
  then have d: "video_dispatch E (currentSettingsData s) f =
      ApiResponse [ToolCall ''find_relevant_timestamps'' [args f]] (currentSettingsData s) v"
    by (simp add: video_dispatch_def)
  from a have m: "sendMessage E (chat s) (FunctionResponse (name f) v) = Inr (r, h)"
    by simp
  from loop_body_sends [where d = "video_dispatch E", OF assms d m] a
  show "chat (ctl_state (loop_body (video_dispatch E) E s)) = h"
    and "result (ctl_state (loop_body (video_dispatch E) E s)) = r"
    and "sent h = sent (chat s) @ [FunctionResponse ''find_relevant_timestamps'' v]"
    by simp_all
next
  assume a: "name f = ''find_relevant_timestamps'' \<and> find_relevant_timestamps E (args f) = Inl e"
  then have d: "video_dispatch E (currentSettingsData s) f =
      Thrown [ToolCall ''find_relevant_timestamps'' [args f]] e"
    by (simp add: video_dispatch_def)
  from loop_body_thrown [where d = "video_dispatch E", OF assms d] a
  show "loop_body (video_dispatch E) E s =
              Throw e (s\<lparr>loopCount := Suc (loopCount s),
                console := console s @ [RequestedCall (Suc (loopCount s)) (name f), ToolCall (name f) [args f]]\<rparr>)"
    by simp_all
next
  assume a: "name f = ''answer_user_query'' \<and> answer_user_query E (args f) = Inr v \<and>
          sendMessage E (chat s) (FunctionResponse ''answer_user_query'' v) = Inr (r, h)"
  then have d: "video_dispatch E (currentSettingsData s) f =
      ApiResponse [ToolCall ''answer_user_query'' [args f]] (currentSettingsData s) v"
    by (simp add: video_dispatch_def)
  from a have m: "sendMessage E (chat s) (FunctionResponse (name f) v) = Inr (r, h)"
    by simp
  from loop_body_sends [where d = "video_dispatch E", OF assms d m] a
  show "chat (ctl_state (loop_body (video_dispatch E) E s)) = h"
    and "result (ctl_state (loop_body (video_dispatch E) E s)) = r"
    and "sent h = sent (chat s) @ [FunctionResponse ''answer_user_query'' v]"
    by simp_all
next
  assume a: "name f = ''answer_user_query'' \<and> answer_user_query E (args f) = Inl e"
  then have d: "video_dispatch E (currentSettingsData s) f =
      Thrown [ToolCall ''answer_user_query'' [args f]] e"
    by (simp add: video_dispatch_def)
  from loop_body_thrown [where d = "video_dispatch E", OF assms d] a
  show "loop_body (video_dispatch E) E s =
              Throw e (s\<lparr>loopCount := Suc (loopCount s),
                console := console s @ [RequestedCall (Suc (loopCount s)) (name f), ToolCall (name f) [args f]]\<rparr>)"
    by simp_all
next
  assume a: "name f = ''get_current_app_settings'' \<and>
          sendMessage E (chat s) (FunctionResponse ''get_current_app_settings'' (json_of get_current_app_settings)) = Inr (r, h)"
  then have d: "settings_dispatch E q (currentSettingsData s) f =
      ApiResponse [ToolCall ''get_current_app_settings'' []]
          (Some get_current_app_settings) (json_of get_current_app_settings)"
    by (simp add: settings_dispatch_def)
  from a have m: "sendMessage E (chat s) (FunctionResponse (name f) (json_of get_current_app_settings)) = Inr (r, h)"
    by simp
  from loop_body_sends [where d = "settings_dispatch E q", OF assms d m] a
  show "chat (ctl_state (loop_body (settings_dispatch E q) E s)) = h"
    and "result (ctl_state (loop_body (settings_dispatch E q) E s)) = r"
    and "currentSettingsData (ctl_state (loop_body (settings_dispatch E q) E s)) = Some get_current_app_settings"
    and "sent h = sent (chat s) @ [FunctionResponse ''get_current_app_settings'' (json_of get_current_app_settings)]"
    by simp_all
next
  assume a: "name f = ''update_app_settings'' \<and> currentSettingsData s = Some currentSettings \<and>
          sendMessage E (chat s) (FunctionResponse ''update_app_settings'' (update_app_settings E currentSettings q)) = Inr (r, h)"
  then have d: "settings_dispatch E q (currentSettingsData s) f =
      ApiResponse
               [ToolCall ''update_app_settings''
                  [Obj [(''currentSettings'', json_of currentSettings), (''userRequest'', Str q)]]]
               (currentSettingsData s)
               (update_app_settings E currentSettings q)"
    by (simp add: settings_dispatch_def)
  from a have m: "sendMessage E (chat s) (FunctionResponse (name f) (update_app_settings E currentSettings q)) = Inr (r, h)"
    by simp
  from loop_body_sends [where d = "settings_dispatch E q", OF assms d m] a
  show "chat (ctl_state (loop_body (settings_dispatch E q) E s)) = h"
    and "result (ctl_state (loop_body (settings_dispatch E q) E s)) = r"
    and "sent h = sent (chat s) @ [FunctionResponse ''update_app_settings'' (update_app_settings E currentSettings q)]"
    by simp_all
qed

text \<open>
  The video assistant, asked for timestamps by a model whose transactional call returns
  a text that does not parse: the handler is invoked once with the request's arguments,
  and its result on them, the empty list, is what is sent.
\<close>

theorem dispatch_arguments_witness:
  "functionCalls timestamps_request =
      Some [\<lparr>name = ''find_relevant_timestamps'',
             args = Obj [(''userQuery'', Str ''What is Sundar Pichai wearing?'')]\<rparr>]
   \<and> find_relevant_timestamps plain_answer (Obj [(''userQuery'', Str ''What is Sundar Pichai wearing?'')])
      = Inr no_timestamps
   \<and> tool_calls (console (ctl_state
        (loop_body (video_dispatch plain_answer) plain_answer (initial_state timestamps_request []))))
      = [ToolCall ''find_relevant_timestamps'' [Obj [(''userQuery'', Str ''What is Sundar Pichai wearing?'')]]]
   \<and> sent (chat (ctl_state
        (loop_body (video_dispatch plain_answer) plain_answer (initial_state timestamps_request []))))
      = [FunctionResponse ''find_relevant_timestamps'' no_timestamps]"
proof -
  let ?f = "\<lparr>name = ''find_relevant_timestamps'', args = Obj [(''userQuery'', Str ''What is Sundar Pichai wearing?'')]\<rparr>"
  let ?r = "\<lparr>parts = Some [TextPart ''Hello!''], response_text = Inr ''Hello!''\<rparr>"
  let ?h = "[UserTurn (FunctionResponse ''find_relevant_timestamps'' no_timestamps), ModelTurn ?r]"
  have fc: "functionCalls (result (initial_state timestamps_request [])) = Some (?f # [])"
    by (simp add: functionCalls_def timestamps_request_def)
  have v: "find_relevant_timestamps plain_answer (args ?f) = Inr no_timestamps"
    by (simp add: find_relevant_timestamps_def plain_answer_def test_env_def)
  have m: "sendMessage plain_answer (chat (initial_state timestamps_request []))
      (FunctionResponse ''find_relevant_timestamps'' no_timestamps) = Inr (?r, ?h)"
    by (simp add: sendMessage_def plain_answer_def test_env_def scripted_def text_response_def
        view_def append_turn_def)
  note t = dispatch_arguments [OF fc, where E = plain_answer and v = no_timestamps and r = ?r and h = ?h]
  have 1: "tool_calls (console (ctl_state
        (loop_body (video_dispatch plain_answer) plain_answer (initial_state timestamps_request []))))
      = [ToolCall ''find_relevant_timestamps'' [Obj [(''userQuery'', Str ''What is Sundar Pichai wearing?'')]]]"
    using conjunct1 [OF t] by simp
  have 2: "chat (ctl_state
        (loop_body (video_dispatch plain_answer) plain_answer (initial_state timestamps_request []))) = ?h"
    using conjunct1 [OF conjunct2 [OF conjunct2 [OF conjunct2 [OF t]]]] v m by simp
  show ?thesis
    using fc v 1 2 by simp
qed

subsection \<open>The session\<close>

lemma foldl_append_turn: "foldl append_turn h ts = h @ ts"
  by (induction ts arbitrary: h) (simp_all add: append_turn_def)

lemma chat_loop_prefix:
  "one_call_each d \<Longrightarrow> prefix (chat s) (chat (chat_loop d E s))"
  using chat_loop_step_ok [of d s E] by (simp add: step_ok_def)

text \<open>
  C9. Appending the turns \<open>ts\<close> one after the other to an empty session and reading the
  view gives exactly \<open>ts\<close>; appended to a session \<open>h\<close>, they follow the turns of \<open>h\<close>,
  which stay as they were. The loops use the session through \<open>sendMessage\<close> only, and
  the session at the start of a run is a prefix of the session at its end.
\<close>

theorem session_is_append_only:
  "view (foldl append_turn [] ts) = ts
   \<and> view (foldl append_turn h ts) = view h @ ts
   \<and> prefix (view (chat s)) (view (chat (chat_loop (settings_dispatch E q) E s)))
   \<and> prefix (view (chat s)) (view (chat (chat_loop (video_dispatch E) E s)))"
  using chat_loop_prefix [OF settings_dispatch_one_call, where s = s and E = E]
    chat_loop_prefix [OF video_dispatch_one_call, where s = s and E = E]
  by (simp add: foldl_append_turn view_def)

theorem session_is_append_only_witness:
  "view (foldl append_turn []
      [UserTurn (TextMessage ''Hi''),
       ModelTurn \<lparr>parts = Some [TextPart ''Hello!''], response_text = Inr ''Hello!''\<rparr>,
       UserTurn (TextMessage ''Bye'')]) =
     [UserTurn (TextMessage ''Hi''),
      ModelTurn \<lparr>parts = Some [TextPart ''Hello!''], response_text = Inr ''Hello!''\<rparr>,
      UserTurn (TextMessage ''Bye'')]"
  by (rule conjunct1 [OF session_is_append_only])

subsection \<open>The bound on the loop\<close>

text \<open>
  With a chat model that never requests a function call the loop of the route assistant
  does not end: whatever value a run returned would contradict the model's answers.
\<close>

lemma route_loop_stays:
  assumes "route_loop E response res h out = Some y"
  shows "\<not> (E = talkative \<and> first_functionCall response = None \<and> first_functionCall res = None \<and>
            response_text res = Inr ''Where would you like to go?'')"
proof (rule route_loop.raw_induct
    [where P = "\<lambda>E response res h out y.
       \<not> (E = talkative \<and> first_functionCall response = None \<and> first_functionCall res = None \<and>
            response_text res = Inr ''Where would you like to go?'')",
     OF _ assms], goal_cases)
  case prems: (1 loop E response res h out y)
  show ?case
  proof
    assume a: "E = talkative \<and> first_functionCall response = None \<and> first_functionCall res = None \<and>
            response_text res = Inr ''Where would you like to go?''"
    then obtain r h' where s: "sendMessage E h (TextMessage ''Ok. Please help me find it.'') = Inr (r, h')"
      and r: "first_functionCall r = None" "response_text r = Inr ''Where would you like to go?''"
      by (auto simp: sendMessage_def talkative_def text_response_def first_functionCall_def)
    with a prems(2) have "loop E res r h' (out @ [Assistant ''Where would you like to go?'']) = Some y"
      by simp
    from prems(1) [OF this] a r show False by simp
  qed
qed

lemma route_loop_talkative:
  assumes "first_functionCall response = None" "first_functionCall res = None"
    and "response_text res = Inr ''Where would you like to go?''"
  shows "route_loop talkative response res h out = None"
proof (cases "route_loop talkative response res h out")
  case None
  then show ?thesis .
next
  case (Some y)
  from route_loop_stays [OF this] assms show ?thesis by simp
qed

lemma route_main_talkative: "route_main talkative q = None"
proof -
  let ?r = "\<lparr>parts = Some [TextPart ''Where would you like to go?''], response_text = Inr ''Where would you like to go?''\<rparr>"
  have s: "\<And>h m. sendMessage talkative h m = Inr (?r, h @ [UserTurn m, ModelTurn ?r])"
    by (simp add: sendMessage_def talkative_def text_response_def view_def append_turn_def)
  have f: "first_functionCall ?r = None"
    by (simp add: first_functionCall_def)
  have t: "response_text ?r = Inr ''Where would you like to go?''"
    by simp
  show ?thesis
    by (simp add: route_main_def s route_loop_talkative [OF f f t])
qed

lemma main_five_calls_then_failure:
  "snd (main five_calls_then_failure ''Bigger text'') =
     [RequestedCall 1 ''get_current_app_settings'', ToolCall ''get_current_app_settings'' [],
      RequestedCall 2 ''get_current_app_settings'', ToolCall ''get_current_app_settings'' [],
      RequestedCall 3 ''get_current_app_settings'', ToolCall ''get_current_app_settings'' [],
      RequestedCall 4 ''get_current_app_settings'', ToolCall ''get_current_app_settings'' [],
      RequestedCall 5 ''get_current_app_settings'', ToolCall ''get_current_app_settings'' [],
      ErrorCaught (TransportError ''connection closed'')]"
  by (simp add: main_def five_calls_then_failure_def test_env_def scripted_def call_response_def
      sendMessage_def view_def append_turn_def initial_state_def chat_loop_def while_loop.simps
      loop_body_def functionCalls_def settings_dispatch_def emit_def MAX_LOOPS_def Let_def
      get_current_app_settings_def json_of_def after_loop_def
      final_response_def catch_def)

text \<open>
  C1, as stated, fails. In adjustable-settings the model requests a tool five times and
  the model client then fails on the fifth function response: the counter has reached 5,
  and the run ends with the caught error, without the report of the exit and without any
  text. And the loop of the route assistant has no counter at all: with a model that
  keeps answering in text the run never leaves it.
\<close>

theorem loop_bound_counterexample:
  "snd (main five_calls_then_failure ''Bigger text'') =
     [RequestedCall 1 ''get_current_app_settings'', ToolCall ''get_current_app_settings'' [],
      RequestedCall 2 ''get_current_app_settings'', ToolCall ''get_current_app_settings'' [],
      RequestedCall 3 ''get_current_app_settings'', ToolCall ''get_current_app_settings'' [],
      RequestedCall 4 ''get_current_app_settings'', ToolCall ''get_current_app_settings'' [],
      RequestedCall 5 ''get_current_app_settings'', ToolCall ''get_current_app_settings'' [],
      ErrorCaught (TransportError ''connection closed'')]
   \<and> ExitedMaxIterations \<notin> set (snd (main five_calls_then_failure ''Bigger text''))
   \<and> route_main talkative ''Whats the best Ruth to get there'' = None"
  by (simp add: main_five_calls_then_failure route_main_talkative)

text \<open>
  C1, amended. The maximum is 5, and every iteration adds one to the counter. In the loop
  of adjustable-settings and in the loop of the video assistant, started as \<open>main\<close>
  starts them: the counter never exceeds the maximum; there are at most as many handler
  invocations as iterations, and at most as many messages sent in the loop as handler
  invocations, so that a run of \<open>main\<close> invokes at most five handlers and sends at most
  six messages, the query and one function response for each invocation, and none after
  the response to the fifth; when five handlers have been invoked and the loop ends
  without an exception, the run reports the exit due to the maximum and then prints the
  text of the last response if it is not empty, or, when reading that text throws,
  reports the exception as caught; and when an exception leaves the loop, at whatever
  count, the run reports it as caught, so no failure leaves \<open>main\<close>.
\<close>

theorem loop_is_bounded:
  "MAX_LOOPS = 5
   \<and> loopCount (ctl_state (loop_body d E s)) = Suc (loopCount s)
   \<and> (d = settings_dispatch E q \<or> d = video_dispatch E \<longrightarrow>
        loopCount (chat_loop d E (initial_state r h)) \<le> MAX_LOOPS
      \<and> length (tool_calls (console (chat_loop d E (initial_state r h))))
           \<le> loopCount (chat_loop d E (initial_state r h))
      \<and> length (sent (chat (chat_loop d E (initial_state r h))))
           \<le> length (sent h) + length (tool_calls (console (chat_loop d E (initial_state r h))))
      \<and> (\<forall>fs. while_loop d E (initial_state r h) = Inr fs \<and>
              length (tool_calls (console fs)) = MAX_LOOPS \<longrightarrow>
            console (chat_loop d E (initial_state r h)) =
              console fs @ ExitedMaxIterations #
                (case response_text (result fs) of
                   Inl e \<Rightarrow> [ErrorCaught e]
                 | Inr t \<Rightarrow> if t = [] then [] else [LastText t]))
      \<and> (\<forall>e fs. while_loop d E (initial_state r h) = Inl (e, fs) \<longrightarrow>
            console (chat_loop d E (initial_state r h)) = console fs @ [ErrorCaught e]))
   \<and> length (tool_calls (snd (main E q))) \<le> MAX_LOOPS
   \<and> length (sent (fst (main E q))) \<le> Suc MAX_LOOPS
   \<and> length (tool_calls (snd (video_main E))) \<le> MAX_LOOPS
   \<and> length (sent (fst (video_main E))) \<le> Suc MAX_LOOPS"
proof -
  have 1: "MAX_LOOPS = 5" by (simp add: MAX_LOOPS_def)
  have 2: "loopCount (ctl_state (loop_body d E s)) = Suc (loopCount s)"
    by (rule loop_body_loopCount)
  have 3: "loopCount (chat_loop d E (initial_state r h)) \<le> MAX_LOOPS
      \<and> length (tool_calls (console (chat_loop d E (initial_state r h))))
           \<le> loopCount (chat_loop d E (initial_state r h))
      \<and> length (sent (chat (chat_loop d E (initial_state r h))))
           \<le> length (sent h) + length (tool_calls (console (chat_loop d E (initial_state r h))))"
    if "d = settings_dispatch E q \<or> d = video_dispatch E"
  proof -
    from that have "one_call_each d"
      using settings_dispatch_one_call video_dispatch_one_call by auto
    from chat_loop_bounds [OF this] show ?thesis by blast
  qed
  have 4: "console (chat_loop d E (initial_state r h)) =
              console fs @ ExitedMaxIterations #
                (case response_text (result fs) of
                   Inl e \<Rightarrow> [ErrorCaught e]
                 | Inr t \<Rightarrow> if t = [] then [] else [LastText t])"
    if d: "d = settings_dispatch E q \<or> d = video_dispatch E"
      and w: "while_loop d E (initial_state r h) = Inr fs \<and>
              length (tool_calls (console fs)) = MAX_LOOPS" for fs
  proof -
    from d have "one_call_each d"
      using settings_dispatch_one_call video_dispatch_one_call by auto
    from while_loop_step_ok [OF this, of "initial_state r h" E] w
    have "MAX_LOOPS \<le> loopCount fs"
      by (simp add: step_ok_def)
    with w show ?thesis
      by (simp add: chat_loop_def catch_def after_loop_def emit_def Let_def split: sum.splits)
  qed
  have 5: "console (chat_loop d E (initial_state r h)) = console fs @ [ErrorCaught e]"
    if "while_loop d E (initial_state r h) = Inl (e, fs)" for e fs
    using that by (simp add: chat_loop_def catch_def emit_def)
  show ?thesis
    using 1 2 3 4 5 main_bounds [of E q] video_main_bounds [of E] by blast
qed

text \<open>
  Six requests in a row, the sixth with some text: five dispatches, six messages, the
  report of the exit and the text of the sixth response.
\<close>

lemma while_loop_six_calls:
  "\<exists>fs. while_loop (settings_dispatch six_calls ''Bigger text'') six_calls
      (initial_state \<lparr>parts = Some [FunctionCallPart \<lparr>name = ''get_current_app_settings'', args = Obj []\<rparr>], response_text = Inr []\<rparr>
         [UserTurn (TextMessage ''Bigger text''),
          ModelTurn \<lparr>parts = Some [FunctionCallPart \<lparr>name = ''get_current_app_settings'', args = Obj []\<rparr>], response_text = Inr []\<rparr>])
     = Inr fs \<and> loopCount fs = 5 \<and> response_text (result fs) = Inr ''One more step.'' \<and>
     length (sent (chat fs)) = 6 \<and>
     console fs =
      [RequestedCall 1 ''get_current_app_settings'', ToolCall ''get_current_app_settings'' [],
       RequestedCall 2 ''get_current_app_settings'', ToolCall ''get_current_app_settings'' [],
       RequestedCall 3 ''get_current_app_settings'', ToolCall ''get_current_app_settings'' [],
       RequestedCall 4 ''get_current_app_settings'', ToolCall ''get_current_app_settings'' [],
       RequestedCall 5 ''get_current_app_settings'', ToolCall ''get_current_app_settings'' [],
       MaxLoopsReached]"
  by (simp add: six_calls_def test_env_def scripted_def call_response_def
      sendMessage_def view_def append_turn_def initial_state_def while_loop.simps
      loop_body_def functionCalls_def settings_dispatch_def emit_def MAX_LOOPS_def Let_def
      get_current_app_settings_def json_of_def)

theorem loop_is_bounded_witness:
  "console (chat_loop (settings_dispatch six_calls ''Bigger text'') six_calls
      (initial_state \<lparr>parts = Some [FunctionCallPart \<lparr>name = ''get_current_app_settings'', args = Obj []\<rparr>], response_text = Inr []\<rparr>
         [UserTurn (TextMessage ''Bigger text''),
          ModelTurn \<lparr>parts = Some [FunctionCallPart \<lparr>name = ''get_current_app_settings'', args = Obj []\<rparr>], response_text = Inr []\<rparr>]))
    = [RequestedCall 1 ''get_current_app_settings'', ToolCall ''get_current_app_settings'' [],
       RequestedCall 2 ''get_current_app_settings'', ToolCall ''get_current_app_settings'' [],
       RequestedCall 3 ''get_current_app_settings'', ToolCall ''get_current_app_settings'' [],
       RequestedCall 4 ''get_current_app_settings'', ToolCall ''get_current_app_settings'' [],
       RequestedCall 5 ''get_current_app_settings'', ToolCall ''get_current_app_settings'' [],
       MaxLoopsReached, ExitedMaxIterations, LastText ''One more step.'']
   \<and> length (sent (chat (chat_loop (settings_dispatch six_calls ''Bigger text'') six_calls
      (initial_state \<lparr>parts = Some [FunctionCallPart \<lparr>name = ''get_current_app_settings'', args = Obj []\<rparr>], response_text = Inr []\<rparr>
         [UserTurn (TextMessage ''Bigger text''),
          ModelTurn \<lparr>parts = Some [FunctionCallPart \<lparr>name = ''get_current_app_settings'', args = Obj []\<rparr>], response_text = Inr []\<rparr>]))))
    = 6"
proof -
  let ?r = "\<lparr>parts = Some [FunctionCallPart \<lparr>name = ''get_current_app_settings'', args = Obj []\<rparr>], response_text = Inr []\<rparr>"
  let ?h = "[UserTurn (TextMessage ''Bigger text''), ModelTurn ?r]"
  obtain fs where w: "while_loop (settings_dispatch six_calls ''Bigger text'') six_calls (initial_state ?r ?h) = Inr fs"
    and c: "loopCount fs = 5" and t: "response_text (result fs) = Inr ''One more step.''"
    and m: "length (sent (chat fs)) = 6"
    and l: "console fs =
      [RequestedCall 1 ''get_current_app_settings'', ToolCall ''get_current_app_settings'' [],
       RequestedCall 2 ''get_current_app_settings'', ToolCall ''get_current_app_settings'' [],
       RequestedCall 3 ''get_current_app_settings'', ToolCall ''get_current_app_settings'' [],
       RequestedCall 4 ''get_current_app_settings'', ToolCall ''get_current_app_settings'' [],
       RequestedCall 5 ''get_current_app_settings'', ToolCall ''get_current_app_settings'' [],
       MaxLoopsReached]"
    using while_loop_six_calls by blast
  have "console (chat_loop (settings_dispatch six_calls ''Bigger text'') six_calls (initial_state ?r ?h)) =
     console fs @ ExitedMaxIterations #
                (case response_text (result fs) of
                   Inl e \<Rightarrow> [ErrorCaught e]
                 | Inr t \<Rightarrow> if t = [] then [] else [LastText t])"
    using loop_is_bounded [where d = "settings_dispatch six_calls ''Bigger text''" and E = six_calls
        and q = "''Bigger text''" and r = ?r and h = ?h] w l
    by (simp add: MAX_LOOPS_def)
  moreover have "chat (chat_loop (settings_dispatch six_calls ''Bigger text'') six_calls (initial_state ?r ?h)) = chat fs"
    using w c t by (simp add: chat_loop_def catch_def after_loop_def emit_def Let_def MAX_LOOPS_def)
  ultimately show ?thesis using t l m by simp
qed

text \<open>
  The same five requests, after which the model's sixth response is blocked, so that its
  text cannot be read: the run reports the exit due to the maximum and then the caught
  exception.
\<close>

lemma main_blocked_sixth:
  "snd (main blocked_sixth ''Bigger text'') =
     [RequestedCall 1 ''get_current_app_settings'', ToolCall ''get_current_app_settings'' [],
      RequestedCall 2 ''get_current_app_settings'', ToolCall ''get_current_app_settings'' [],
      RequestedCall 3 ''get_current_app_settings'', ToolCall ''get_current_app_settings'' [],
      RequestedCall 4 ''get_current_app_settings'', ToolCall ''get_current_app_settings'' [],
      RequestedCall 5 ''get_current_app_settings'', ToolCall ''get_current_app_settings'' [],
      MaxLoopsReached, ExitedMaxIterations, ErrorCaught (Error ''Response was blocked'')]"
  by (simp add: main_def blocked_sixth_def test_env_def scripted_def call_response_def
      sendMessage_def view_def append_turn_def initial_state_def chat_loop_def while_loop.simps
      loop_body_def functionCalls_def settings_dispatch_def emit_def MAX_LOOPS_def Let_def
      get_current_app_settings_def json_of_def after_loop_def final_response_def catch_def)


end
